theory Spec2Isabelle
  imports Complex_Main "HOL-Library.Word" "HOL-Library.Log_Nat"
begin

section \<open>Data model of modular\_cloud\_matcher.cpp\<close>

subsection \<open>Scalars\<close>

text \<open>
  The coordinates of a \<open>pcl::PointXYZ\<close> are C floats, the entries of the ICP matrices are
  \<open>Scalar\<close>s and the fields of the ROS pose messages are doubles. All of them are
  modelled by their IEEE class: a finite value (kept as a rational), one of the two
  infinities, or not-a-number. The conversions float to double that the code performs
  keep the class and the value, so they are the identity here.
\<close>

datatype scalar = Finite rat | PosInf | NegInf | NaN

fun isnan :: "scalar \<Rightarrow> bool" where
  "isnan NaN = True"
| "isnan _ = False"

definition quiet_NaN :: scalar where
  "quiet_NaN = NaN"

subsection \<open>Double arithmetic\<close>

text \<open>
  Line 141 and the log line 146 compute in C doubles. A finite double is kept as its
  rational value, and each operation yields the exact result rounded to binary64 in the
  default mode: to the nearest value with a 53-bit significand, ties to the even
  significand. The exponent range is not modelled: the operands are sizes of clouds (below
  \<open>2 ^ 64\<close>), their quotient and percentages, all far from overflow and from the
  subnormal numbers.
\<close>

text \<open>Rounding to the nearest integer, ties to even.\<close>

definition roundEven :: "rat \<Rightarrow> int" where
  "roundEven x =
     (let f = \<lfloor>x\<rfloor>; d = x - of_int f in
      if d < 1 / 2 then f else if 1 / 2 < d then f + 1 else if even f then f else f + 1)"

text \<open>
  The binary exponent of a positive value \<open>q\<close>: the \<open>e\<close> with \<open>2 ^ e \<le> q < 2 ^ (e + 1)\<close>
  (lemma \<open>exponent_bounds\<close>), from the bit lengths of numerator and denominator.
\<close>

definition exponent :: "rat \<Rightarrow> int" where
  "exponent q =
     (case quotient_of q of (a, b) \<Rightarrow>
        (let d = bitlen a - bitlen b in if 2 powi d \<le> q then d else d - 1))"

definition roundDouble :: "rat \<Rightarrow> rat" where
  "roundDouble q =
     (if q = 0 then 0
      else (let e = exponent \<bar>q\<bar> in
            sgn q * of_int (roundEven (\<bar>q\<bar> * 2 powi (52 - e))) * 2 powi (e - 52)))"

text \<open>The conversion \<open>(double)n\<close> of a \<open>size_t\<close>, and the operations \<open>/\<close>, \<open>*\<close> and \<open>-\<close>.\<close>

definition toDouble :: "nat \<Rightarrow> rat" where
  "toDouble n = roundDouble (of_nat n)"

definition ddiv :: "rat \<Rightarrow> rat \<Rightarrow> rat" where
  "ddiv a b = roundDouble (a / b)"

definition dmul :: "rat \<Rightarrow> rat \<Rightarrow> rat" where
  "dmul a b = roundDouble (a * b)"

definition dsub :: "rat \<Rightarrow> rat \<Rightarrow> rat" where
  "dsub a b = roundDouble (a - b)"

subsection \<open>Input: the cloud message after \<open>pcl::fromROSMsg\<close>\<close>

datatype Time = Time (sec: "32 word") (nsec: "32 word")

datatype PointXYZ = PointXYZ (pt_x: scalar) (pt_y: scalar) (pt_z: scalar)

record PointCloud2 =
  header_stamp :: Time
  points :: "PointXYZ list"

subsection \<open>The point matcher's data points and transformation matrices\<close>

type_synonym vec3 = "scalar \<times> scalar \<times> scalar"
type_synonym vec4 = "scalar \<times> scalar \<times> scalar \<times> scalar"

text \<open>A feature matrix has 4 rows; it is kept as the list of its columns.\<close>

record DP =
  features :: "vec4 list"
  featureLabels :: "(string \<times> nat) list"

text \<open>
  \<open>TP\<close> is the homogeneous 4 by 4 matrix of a 3D transformation (the ICP object is built
  for dimension 3), kept as its four rows. \<open>block(0,3,3,1)\<close> is the translation column and
  \<open>block(0,0,3,3)\<close> the rotation block.
\<close>

type_synonym TP = "vec4 \<times> vec4 \<times> vec4 \<times> vec4"
type_synonym Matrix3 = "vec3 \<times> vec3 \<times> vec3"

fun block_0_3_3_1 :: "TP \<Rightarrow> vec3" where
  "block_0_3_3_1 ((a00, a01, a02, a03), (a10, a11, a12, a13), (a20, a21, a22, a23), r3) =
     (a03, a13, a23)"

fun block_0_0_3_3 :: "TP \<Rightarrow> Matrix3" where
  "block_0_0_3_3 ((a00, a01, a02, a03), (a10, a11, a12, a13), (a20, a21, a22, a23), r3) =
     ((a00, a01, a02), (a10, a11, a12), (a20, a21, a22))"

subsection \<open>Output messages\<close>

datatype Quaternion = Quaternion (qx: scalar) (qy: scalar) (qz: scalar) (qw: scalar)

record Pose =
  position :: vec3
  orientation :: Quaternion

record PoseWithCovarianceStamped =
  pwc_stamp :: Time
  pwc_pose :: Pose

record PoseStamped =
  ps_frame_id :: string
  ps_pose :: Pose

record Path =
  path_frame_id :: string
  poses :: "PoseStamped list"

record StampedTransform =
  rotation :: Quaternion
  origin :: vec3
  st_stamp :: Time
  frame_id :: string
  child_frame_id :: string

subsection \<open>Effects\<close>

text \<open>
  Everything \<open>gotCloud\<close> does to the outside is recorded, in program order, as a list of
  events: the ROS log lines, the two mutating calls into the ICP object, and the three
  kinds of published messages.
\<close>

text \<open>
  The log lines. \<open>PartialImage\<close> carries the percentage of the image that is missing,
  a double, and \<open>goodCount\<close>.
\<close>

datatype diagnostic =
    NoGoodPoints
  | GotPoints nat nat
  | PartialImage rat nat
  | MatchRatio scalar
  | FailedToConverge
  | ResettingTracker
  | KeyframeCreatedAt scalar

datatype event =
    Log diagnostic
  | IcpCall DP
  | IcpResetTracking DP
  | PosePublish PoseWithCovarianceStamped
  | PathPublish Path
  | SendTransform StampedTransform

subsection \<open>External collaborators\<close>

text \<open>
  \<open>MSA::ICPSequence\<close> and Eigen's matrix-to-quaternion conversion are library code. They
  are parameters of the model: \<open>'s\<close> is the state of the ICP object, \<open>icp_call\<close> is its call
  operator, returning \<open>False\<close> when it throws \<open>MSA::ConvergenceError\<close> (the only exception
  \<open>gotCloud\<close> catches), together with the state the call leaves behind. \<open>gotCloud\<close> reads
  \<open>dp\<close> after the call only on the failure path, where the source notes that \<open>dp\<close> is not
  affected, so \<open>dp\<close> is passed by value.
\<close>

record 's Collaborators =
  icp_call :: "DP \<Rightarrow> 's \<Rightarrow> bool \<times> 's"
  getDeltaTransform :: "'s \<Rightarrow> TP"
  getTransform :: "'s \<Rightarrow> TP"
  keyFrameCreatedAtLastCall :: "'s \<Rightarrow> bool"
  resetTracking :: "DP \<Rightarrow> 's \<Rightarrow> 's"
  getWeightedPointUsedRatio :: "'s \<Rightarrow> scalar"
  quaternionOfMatrix :: "Matrix3 \<Rightarrow> Quaternion"

subsection \<open>The node's state\<close>

record 's CloudMatcher =
  icp :: 's
  sendDeltaPoseMessage :: bool
  fixedFrame :: string
  sensorFrame :: string
  startupDropCount :: "32 word"
  dropCount :: "32 word"
  path :: Path

text \<open>
  The constructor. The values read from the parameter server and the ICP object after
  \<open>populateParameters\<close> are arguments. \<open>getParam("startupDropCount", 0)\<close> yields a C
  \<open>int\<close>, which initialises an \<open>unsigned\<close>: the conversion is modulo \<open>2 ^ 32\<close>.
\<close>

definition CloudMatcher_init ::
  "'s \<Rightarrow> bool \<Rightarrow> string \<Rightarrow> string \<Rightarrow> int \<Rightarrow> 's CloudMatcher" where
  "CloudMatcher_init icp0 sendDelta fixedFrameParam sensorFrameParam startupDropCountParam =
     \<lparr> icp = icp0,
       sendDeltaPoseMessage = sendDelta,
       fixedFrame = fixedFrameParam,
       sensorFrame = sensorFrameParam,
       startupDropCount = word_of_int startupDropCountParam,
       dropCount = 0,
       path = \<lparr> path_frame_id = fixedFrameParam, poses = [] \<rparr> \<rparr>"

section \<open>The callback \<open>CloudMatcher::gotCloud\<close>\<close>

subsection \<open>Counting and copying the good points\<close>

text \<open>
  The first loop: \<open>goodCount\<close> is incremented for every point whose x is not NaN.
  \<open>goodCount\<close> (a \<open>size_t\<close>) and \<open>dIndex\<close> (an \<open>int\<close>) count points of one cloud and
  stay far below the range of their types; they are natural numbers here.
\<close>

fun countGood :: "PointXYZ list \<Rightarrow> nat \<Rightarrow> nat" where
  "countGood [] goodCount = goodCount"
| "countGood (p # ps) goodCount =
     countGood ps (if \<not> isnan (pt_x p) then goodCount + 1 else goodCount)"

text \<open>
  \<open>DP::Features(4, goodCount)\<close> allocates the matrix without initialising it; the
  placeholder column below stands for the unspecified content, all of which the second
  loop overwrites (lemma \<open>fillFeatures_all\<close>).
\<close>

definition Features_alloc :: "nat \<Rightarrow> vec4 list" where
  "Features_alloc n = replicate n (Finite 0, Finite 0, Finite 0, Finite 0)"

text \<open>The second loop: column \<open>dIndex\<close> receives \<open>(x, y, z, 1)\<close> of the next good point.\<close>

fun fillFeatures :: "PointXYZ list \<Rightarrow> vec4 list \<Rightarrow> nat \<Rightarrow> vec4 list" where
  "fillFeatures [] feats dIndex = feats"
| "fillFeatures (p # ps) feats dIndex =
     (if \<not> isnan (pt_x p)
      then fillFeatures ps (feats[dIndex := (pt_x p, pt_y p, pt_z p, Finite 1)]) (dIndex + 1)
      else fillFeatures ps feats dIndex)"

definition labels :: "(string \<times> nat) list" where
  "labels = [(''x'', 1), (''y'', 1), (''z'', 1), (''pad'', 1)]"

definition makeDP :: "PointXYZ list \<Rightarrow> DP" where
  "makeDP pts =
     \<lparr> features = fillFeatures pts (Features_alloc (countGood pts 0)) 0,
       featureLabels = labels \<rparr>"

subsection \<open>The messages built by the callback\<close>

definition nanPose :: Pose where
  "nanPose = \<lparr> position = (quiet_NaN, quiet_NaN, quiet_NaN),
               orientation = Quaternion quiet_NaN quiet_NaN quiet_NaN quiet_NaN \<rparr>"

text \<open>Lines 166 to 184: the pose of the delta transform.\<close>

definition deltaPose :: "'s Collaborators \<Rightarrow> TP \<Rightarrow> Pose" where
  "deltaPose E dTransform =
     \<lparr> position = block_0_3_3_1 dTransform,
       orientation = quaternionOfMatrix E (block_0_0_3_3 dTransform) \<rparr>"

text \<open>Lines 205 to 214: the tf transform of the global transform.\<close>

definition tfTransform ::
  "'s Collaborators \<Rightarrow> TP \<Rightarrow> Time \<Rightarrow> string \<Rightarrow> string \<Rightarrow> StampedTransform" where
  "tfTransform E globalTransform stamp fixed sensor =
     \<lparr> rotation = quaternionOfMatrix E (block_0_0_3_3 globalTransform),
       origin = block_0_3_3_1 globalTransform,
       st_stamp = stamp,
       frame_id = fixed,
       child_frame_id = sensor \<rparr>"

text \<open>Lines 219 to 227: the pose appended to the path.\<close>

definition pathPose :: "'s Collaborators \<Rightarrow> TP \<Rightarrow> string \<Rightarrow> PoseStamped" where
  "pathPose E globalTransform sensor =
     \<lparr> ps_frame_id = sensor,
       ps_pose = \<lparr> position = block_0_3_3_1 globalTransform,
                   orientation = quaternionOfMatrix E (block_0_0_3_3 globalTransform) \<rparr> \<rparr>"

subsection \<open>The body after the warm-up guard\<close>

text \<open>Lines 102 to 124: no good point in the cloud.\<close>

definition noGoodPoints :: "PointCloud2 \<Rightarrow> 's CloudMatcher \<Rightarrow> event list" where
  "noGoodPoints cloudMsg cm =
     Log NoGoodPoints #
     (if sendDeltaPoseMessage cm
      then [PosePublish \<lparr> pwc_stamp = header_stamp cloudMsg, pwc_pose = nanPose \<rparr>]
      else [])"

text \<open>
  Line 141: \<open>(double)goodCount / (double)cloud.points.size()\<close>. The callback reaches
  this line only with \<open>goodCount\<close> at least 1, so the divisor is not zero.
\<close>

definition imageRatio :: "nat \<Rightarrow> nat \<Rightarrow> rat" where
  "imageRatio goodCount cloudSize = ddiv (toDouble goodCount) (toDouble cloudSize)"

text \<open>Line 146: \<open>100 - imageRatio*100.0\<close>.\<close>

definition missingPercent :: "rat \<Rightarrow> rat" where
  "missingPercent ratio = dsub 100 (dmul ratio 100)"

text \<open>
  Lines 96 to 141, the filtering of the cloud: \<open>None\<close> where the callback returns at line
  123, otherwise the data points, \<open>goodCount\<close> and \<open>imageRatio\<close> as they stand at line 141.
\<close>

definition filterCloud :: "PointXYZ list \<Rightarrow> (DP \<times> nat \<times> rat) option" where
  "filterCloud pts =
     (let goodCount = countGood pts 0 in
      if goodCount = 0 then None
      else Some (makeDP pts, goodCount, imageRatio goodCount (length pts)))"

text \<open>Lines 139 to 148: the two log lines before the ICP call.\<close>

definition reportCloud :: "nat \<Rightarrow> nat \<Rightarrow> rat \<Rightarrow> event list" where
  "reportCloud cloudSize goodCount ratio =
     Log (GotPoints cloudSize goodCount) #
     (if goodCount < 10000
      then [Log (PartialImage (missingPercent ratio) goodCount)]
      else [])"

text \<open>Lines 150 to 161: the ICP call inside \<open>try\<close>, with the handler of ConvergenceError.\<close>

definition callIcp :: "'s Collaborators \<Rightarrow> DP \<Rightarrow> 's \<Rightarrow> event list \<times> bool \<times> 's" where
  "callIcp E dp s =
     (case icp_call E dp s of
        (True, s1) \<Rightarrow>
          ([IcpCall dp, Log (MatchRatio (getWeightedPointUsedRatio E s1))], True, s1)
      | (False, s1) \<Rightarrow>
          ([IcpCall dp, Log FailedToConverge], False, s1))"

text \<open>Lines 163 to 201: the delta pose message, with the reset of the tracker on failure.\<close>

definition sendDeltaPose ::
  "'s Collaborators \<Rightarrow> PointCloud2 \<Rightarrow> DP \<Rightarrow> bool \<Rightarrow> bool \<Rightarrow> 's \<Rightarrow> event list \<times> 's" where
  "sendDeltaPose E cloudMsg dp sendDelta icpWasSuccess s =
     (if sendDelta
      then
        (let dTransform = getDeltaTransform E s in
         if icpWasSuccess
         then ([PosePublish \<lparr> pwc_stamp = header_stamp cloudMsg,
                               pwc_pose = deltaPose E dTransform \<rparr>], s)
         else ([Log ResettingTracker,
                IcpResetTracking dp,
                PosePublish \<lparr> pwc_stamp = header_stamp cloudMsg, pwc_pose = nanPose \<rparr>],
               resetTracking E dp s))
      else ([], s))"

text \<open>Lines 205 to 232: the path, when a key frame was created, and the tf broadcast.\<close>

definition broadcast ::
  "'s Collaborators \<Rightarrow> PointCloud2 \<Rightarrow> 's CloudMatcher \<Rightarrow> 's \<Rightarrow> event list \<times> Path" where
  "broadcast E cloudMsg cm s =
     (let globalTransform = getTransform E s;
          transform = tfTransform E globalTransform (header_stamp cloudMsg)
                        (fixedFrame cm) (sensorFrame cm)
      in
        if keyFrameCreatedAtLastCall E s
        then
          (let path1 = (path cm)\<lparr> poses :=
                 poses (path cm) @ [pathPose E globalTransform (sensorFrame cm)] \<rparr>
           in ([Log (KeyframeCreatedAt (getWeightedPointUsedRatio E s)),
                PathPublish path1,
                SendTransform transform], path1))
        else ([SendTransform transform], path cm))"

text \<open>Lines 85 to 232.\<close>

definition processCloud ::
  "'s Collaborators \<Rightarrow> PointCloud2 \<Rightarrow> 's CloudMatcher \<Rightarrow> event list \<times> 's CloudMatcher" where
  "processCloud E cloudMsg cm =
     (case filterCloud (points cloudMsg) of
        None \<Rightarrow> (noGoodPoints cloudMsg cm, cm)
      | Some (dp, goodCount, ratio) \<Rightarrow>
          (let ev1 = reportCloud (length (points cloudMsg)) goodCount ratio;
               (ev2, icpWasSuccess, s1) = callIcp E dp (icp cm);
               (ev3, s2) = sendDeltaPose E cloudMsg dp (sendDeltaPoseMessage cm) icpWasSuccess s1;
               (ev4, path1) = broadcast E cloudMsg cm s2
           in (ev1 @ ev2 @ ev3 @ ev4, cm\<lparr> icp := s2, path := path1 \<rparr>)))"

subsection \<open>The callback\<close>

definition gotCloud ::
  "'s Collaborators \<Rightarrow> PointCloud2 \<Rightarrow> 's CloudMatcher \<Rightarrow> event list \<times> 's CloudMatcher" where
  "gotCloud E cloudMsg cm =
     (if dropCount cm < startupDropCount cm
      then ([], cm\<lparr> dropCount := dropCount cm + 1 \<rparr>)
      else processCloud E cloudMsg cm)"

text \<open>
  \<open>ros::spin\<close> delivers the messages one at a time; \<open>run\<close> feeds a list of them to the
  callback and keeps the events of each frame apart.
\<close>

fun run ::
  "'s Collaborators \<Rightarrow> PointCloud2 list \<Rightarrow> 's CloudMatcher \<Rightarrow> event list list \<times> 's CloudMatcher"
  where
  "run E [] cm = ([], cm)"
| "run E (f # fs) cm =
     (case gotCloud E f cm of
        (evs, cm1) \<Rightarrow> (case run E fs cm1 of (rest, cm2) \<Rightarrow> (evs # rest, cm2)))"

subsection \<open>Reading the event list\<close>

fun registrationCallOf :: "event \<Rightarrow> DP list" where
  "registrationCallOf (IcpCall dp) = [dp]"
| "registrationCallOf _ = []"

fun resetOf :: "event \<Rightarrow> DP list" where
  "resetOf (IcpResetTracking dp) = [dp]"
| "resetOf _ = []"

fun deltaPoseOf :: "event \<Rightarrow> PoseWithCovarianceStamped list" where
  "deltaPoseOf (PosePublish p) = [p]"
| "deltaPoseOf _ = []"

fun pathOf :: "event \<Rightarrow> Path list" where
  "pathOf (PathPublish p) = [p]"
| "pathOf _ = []"

fun transformOf :: "event \<Rightarrow> StampedTransform list" where
  "transformOf (SendTransform t) = [t]"
| "transformOf _ = []"

definition registrationCalls :: "event list \<Rightarrow> DP list" where
  "registrationCalls evs = concat (map registrationCallOf evs)"

definition resets :: "event list \<Rightarrow> DP list" where
  "resets evs = concat (map resetOf evs)"

definition deltaPoses :: "event list \<Rightarrow> PoseWithCovarianceStamped list" where
  "deltaPoses evs = concat (map deltaPoseOf evs)"

definition pathEvents :: "event list \<Rightarrow> Path list" where
  "pathEvents evs = concat (map pathOf evs)"

definition broadcasts :: "event list \<Rightarrow> StampedTransform list" where
  "broadcasts evs = concat (map transformOf evs)"

text \<open>Every position and orientation component of a pose is not-a-number.\<close>

definition allNaN :: "Pose \<Rightarrow> bool" where
  "allNaN p =
     (case position p of (a, b, c) \<Rightarrow>
        isnan a \<and> isnan b \<and> isnan c \<and>
        isnan (qx (orientation p)) \<and> isnan (qy (orientation p)) \<and>
        isnan (qz (orientation p)) \<and> isnan (qw (orientation p)))"

section \<open>The claims' own notions\<close>

text \<open>
  The specification's validity of a point, in its words: all three coordinates are finite
  (not NaN, not infinite). It is compared with the test the callback applies.
\<close>

fun isfinite :: "scalar \<Rightarrow> bool" where
  "isfinite (Finite q) = True"
| "isfinite _ = False"

definition spec_valid :: "PointXYZ \<Rightarrow> bool" where
  "spec_valid p = (isfinite (pt_x p) \<and> isfinite (pt_y p) \<and> isfinite (pt_z p))"

section \<open>The Registration collaborator, from the specification\<close>

text \<open>
  Modelled from the spec: the Registration collaborator, that is \<open>MSA::ICPSequence\<close> with
  its call operator, \<open>getTransform\<close>, \<open>getDeltaTransform\<close>, \<open>resetTracking\<close> and
  \<open>keyFrameCreatedAtLastCall\<close>, whose code is not among the sources. The specification
  gives it a keyframe (absent at startup), the AbsoluteTransform (the identity at startup)
  and the flag "last call created a new keyframe". A match either converges with a
  DeltaTransform and a match ratio or fails; the first frame becomes the keyframe with the
  identity as delta; on success the new AbsoluteTransform is the previous one composed
  with the DeltaTransform; on failure the AbsoluteTransform is not updated and no keyframe
  is created; \<open>resetTracking\<close> discards the keyframe and adopts the given set. The
  numerical solver and the quality-driven decision to refresh the keyframe are a black box
  for the specification: they are the two fields of a policy.
\<close>

datatype RegistrationOutcome = Converged TP scalar | Failed

text \<open>
  Modelled from the spec: the state owned by the Registration collaborator (the
  TrackingState of the specification without the warm-up counter, which the node keeps),
  with the DeltaTransform and the match ratio of the last converged match.
\<close>

record Registration =
  keyframe :: "DP option"
  absoluteTransform :: TP
  deltaTransform :: TP
  matchRatio :: scalar
  keyFrameCreated :: bool

text \<open>
  Modelled from the spec: what the specification leaves to the collaborator as a black
  box, namely the solver (from the keyframe and the new set to an outcome) and the decision
  to refresh the keyframe (from the match ratio).
\<close>

record RegistrationPolicy =
  solver :: "DP \<Rightarrow> DP \<Rightarrow> RegistrationOutcome"
  refreshKeyframe :: "scalar \<Rightarrow> bool"

text \<open>Modelled from the spec: the identity transform.\<close>

definition identityTP :: TP where
  "identityTP =
     ((Finite 1, Finite 0, Finite 0, Finite 0),
      (Finite 0, Finite 1, Finite 0, Finite 0),
      (Finite 0, Finite 0, Finite 1, Finite 0),
      (Finite 0, Finite 0, Finite 0, Finite 1))"

text \<open>
  Modelled from the spec: the composition of two transforms, that is the product of their
  homogeneous matrices. The arithmetic on the entries is exact on finite values and
  follows the IEEE rules for NaN and the infinities.
\<close>

fun sadd :: "scalar \<Rightarrow> scalar \<Rightarrow> scalar" where
  "sadd NaN _ = NaN"
| "sadd _ NaN = NaN"
| "sadd (Finite a) (Finite b) = Finite (a + b)"
| "sadd PosInf NegInf = NaN"
| "sadd NegInf PosInf = NaN"
| "sadd PosInf _ = PosInf"
| "sadd NegInf _ = NegInf"
| "sadd _ PosInf = PosInf"
| "sadd _ NegInf = NegInf"

fun ssign :: "scalar \<Rightarrow> rat" where
  "ssign (Finite a) = sgn a"
| "ssign PosInf = 1"
| "ssign NegInf = - 1"
| "ssign NaN = 0"

fun smul :: "scalar \<Rightarrow> scalar \<Rightarrow> scalar" where
  "smul NaN _ = NaN"
| "smul _ NaN = NaN"
| "smul (Finite a) (Finite b) = Finite (a * b)"
| "smul a b =
     (if ssign a * ssign b = 0 then NaN
      else if 0 < ssign a * ssign b then PosInf else NegInf)"

fun dot4 :: "vec4 \<Rightarrow> vec4 \<Rightarrow> scalar" where
  "dot4 (a0, a1, a2, a3) (b0, b1, b2, b3) =
     sadd (sadd (sadd (smul a0 b0) (smul a1 b1)) (smul a2 b2)) (smul a3 b3)"

fun columns :: "TP \<Rightarrow> TP" where
  "columns ((a00, a01, a02, a03), (a10, a11, a12, a13),
            (a20, a21, a22, a23), (a30, a31, a32, a33)) =
     ((a00, a10, a20, a30), (a01, a11, a21, a31),
      (a02, a12, a22, a32), (a03, a13, a23, a33))"

fun rowTimes :: "vec4 \<Rightarrow> TP \<Rightarrow> vec4" where
  "rowTimes r (c0, c1, c2, c3) = (dot4 r c0, dot4 r c1, dot4 r c2, dot4 r c3)"

fun matrixProduct :: "TP \<Rightarrow> TP \<Rightarrow> TP" where
  "matrixProduct (r0, r1, r2, r3) B =
     (rowTimes r0 (columns B), rowTimes r1 (columns B),
      rowTimes r2 (columns B), rowTimes r3 (columns B))"

text \<open>
  Modelled from the spec: a rigid transform has finite entries only.
\<close>

fun finite4 :: "vec4 \<Rightarrow> bool" where
  "finite4 (a, b, c, d) = (isfinite a \<and> isfinite b \<and> isfinite c \<and> isfinite d)"

fun finiteTP :: "TP \<Rightarrow> bool" where
  "finiteTP (r0, r1, r2, r3) = (finite4 r0 \<and> finite4 r1 \<and> finite4 r2 \<and> finite4 r3)"

text \<open>
  Modelled from the spec: the collaborator at startup, with the identity transform and no
  keyframe.
\<close>

definition Registration_init :: Registration where
  "Registration_init =
     \<lparr> keyframe = None,
       absoluteTransform = identityTP,
       deltaTransform = identityTP,
       matchRatio = Finite 1,
       keyFrameCreated = False \<rparr>"

text \<open>Modelled from the spec: \<open>match\<close> of the Registration collaborator.\<close>

definition reg_match :: "RegistrationPolicy \<Rightarrow> DP \<Rightarrow> Registration \<Rightarrow> bool \<times> Registration" where
  "reg_match P F r =
     (case keyframe r of
        None \<Rightarrow>
          (True, r\<lparr> keyframe := Some F,
                    absoluteTransform := matrixProduct (absoluteTransform r) identityTP,
                    deltaTransform := identityTP,
                    keyFrameCreated := True \<rparr>)
      | Some K \<Rightarrow>
          (case solver P K F of
             Failed \<Rightarrow> (False, r\<lparr> keyFrameCreated := False \<rparr>)
           | Converged D ratio \<Rightarrow>
               (True, r\<lparr> keyframe := (if refreshKeyframe P ratio then Some F else Some K),
                         absoluteTransform := matrixProduct (absoluteTransform r) D,
                         deltaTransform := D,
                         matchRatio := ratio,
                         keyFrameCreated := refreshKeyframe P ratio \<rparr>)))"

text \<open>Modelled from the spec: \<open>resetTracking\<close> of the Registration collaborator.\<close>

definition reg_resetTracking :: "DP \<Rightarrow> Registration \<Rightarrow> Registration" where
  "reg_resetTracking F r = r\<lparr> keyframe := Some F \<rparr>"

text \<open>
  Modelled from the spec: the Registration collaborator as the ICP object of the callback.
  The quaternion conversion stays a parameter.
\<close>

definition specRegistration ::
  "RegistrationPolicy \<Rightarrow> (Matrix3 \<Rightarrow> Quaternion) \<Rightarrow> Registration Collaborators" where
  "specRegistration P quat =
     \<lparr> icp_call = reg_match P,
       getDeltaTransform = deltaTransform,
       getTransform = absoluteTransform,
       keyFrameCreatedAtLastCall = keyFrameCreated,
       resetTracking = reg_resetTracking,
       getWeightedPointUsedRatio = matchRatio,
       quaternionOfMatrix = quat \<rparr>"

section \<open>A concrete policy, for evaluating the model\<close>

text \<open>
  A quaternion proportional to the one of a rotation matrix; a solver that fails when the
  new cloud has fewer points than the keyframe and otherwise reports a fixed motion; a
  second solver that always reports a quarter turn about the z axis with a step.
\<close>

fun sneg :: "scalar \<Rightarrow> scalar" where
  "sneg (Finite a) = Finite (- a)"
| "sneg PosInf = NegInf"
| "sneg NegInf = PosInf"
| "sneg NaN = NaN"

fun scaledQuaternion :: "Matrix3 \<Rightarrow> Quaternion" where
  "scaledQuaternion ((a00, a01, a02), (a10, a11, a12), (a20, a21, a22)) =
     Quaternion (sadd a21 (sneg a12)) (sadd a02 (sneg a20)) (sadd a10 (sneg a01))
                (sadd (sadd (sadd (Finite 1) a00) a11) a22)"

definition stepForward :: TP where
  "stepForward =
     ((Finite 1, Finite 0, Finite 0, Finite 2),
      (Finite 0, Finite 1, Finite 0, Finite 0),
      (Finite 0, Finite 0, Finite 1, Finite 0),
      (Finite 0, Finite 0, Finite 0, Finite 1))"

definition sizeSolver :: "DP \<Rightarrow> DP \<Rightarrow> RegistrationOutcome" where
  "sizeSolver K F =
     (if length (features F) < length (features K) then Failed
      else Converged stepForward (Finite (1 / 2)))"

fun belowThreeQuarters :: "scalar \<Rightarrow> bool" where
  "belowThreeQuarters (Finite q) = (q < 3 / 4)"
| "belowThreeQuarters _ = False"

definition examplePolicy :: RegistrationPolicy where
  "examplePolicy =
     \<lparr> solver = sizeSolver, refreshKeyframe = belowThreeQuarters \<rparr>"

definition exampleRegistration :: "Registration Collaborators" where
  "exampleRegistration = specRegistration examplePolicy scaledQuaternion"

definition quarterTurn :: TP where
  "quarterTurn =
     ((Finite 0, Finite (- 1), Finite 0, Finite 1),
      (Finite 1, Finite 0, Finite 0, Finite 0),
      (Finite 0, Finite 0, Finite 1, Finite 0),
      (Finite 0, Finite 0, Finite 0, Finite 1))"

definition turningPolicy :: RegistrationPolicy where
  "turningPolicy =
     \<lparr> solver = (\<lambda>K F. Converged quarterTurn (Finite (9 / 10))),
       refreshKeyframe = belowThreeQuarters \<rparr>"

text \<open>Frames and node states used to evaluate the model.\<close>

definition t1 :: Time where
  "t1 = Time 10 0"

definition t2 :: Time where
  "t2 = Time 11 500"

definition pGood :: PointXYZ where
  "pGood = PointXYZ (Finite 1) (Finite 2) (Finite 3)"

definition pNaN :: PointXYZ where
  "pNaN = PointXYZ NaN NaN NaN"

definition pHalfNaN :: PointXYZ where
  "pHalfNaN = PointXYZ (Finite 1) NaN PosInf"

definition frameTwoGood :: PointCloud2 where
  "frameTwoGood = \<lparr> header_stamp = t1, points = [pGood, pNaN, pGood] \<rparr>"

definition frameOneGood :: PointCloud2 where
  "frameOneGood = \<lparr> header_stamp = t2, points = [pNaN, pGood] \<rparr>"

definition frameAllNaN :: PointCloud2 where
  "frameAllNaN = \<lparr> header_stamp = t2, points = [pNaN, pNaN] \<rparr>"

definition frameEmpty :: PointCloud2 where
  "frameEmpty = \<lparr> header_stamp = t1, points = [] \<rparr>"

text \<open>A tracker whose keyframe holds two points: \<open>frameOneGood\<close> fails to register.\<close>

definition tracking :: "bool \<Rightarrow> Registration CloudMatcher" where
  "tracking sendDelta =
     (CloudMatcher_init
        (Registration_init\<lparr> keyframe := Some (makeDP (points frameTwoGood)),
                             absoluteTransform := stepForward \<rparr>)
        sendDelta ''/world'' ''/openni_rgb_optical_frame'' 0)"

text \<open>A tracker at the identity whose keyframe holds one point: \<open>frameTwoGood\<close> registers.\<close>

definition atOrigin :: "bool \<Rightarrow> Registration CloudMatcher" where
  "atOrigin sendDelta =
     (CloudMatcher_init
        (Registration_init\<lparr> keyframe := Some (makeDP (points frameOneGood)) \<rparr>)
        sendDelta ''/world'' ''/openni_rgb_optical_frame'' 0)"

text \<open>A frame whose only point has a good x but no finite y or z.\<close>

definition frameHalfNaN :: PointCloud2 where
  "frameHalfNaN = \<lparr> header_stamp = t1, points = [pHalfNaN] \<rparr>"

section \<open>The good points and the feature matrix\<close>

definition good :: "PointXYZ \<Rightarrow> bool" where
  "good p = (\<not> isnan (pt_x p))"

definition homogeneous :: "PointXYZ \<Rightarrow> vec4" where
  "homogeneous p = (pt_x p, pt_y p, pt_z p, Finite 1)"

lemma countGood_filter: "countGood ps n = n + length (filter good ps)"
  by (induction ps arbitrary: n) (simp_all add: good_def)

lemma fillFeatures_take:
  "length feats = dIndex + length (filter good ps) \<Longrightarrow>
   fillFeatures ps feats dIndex = take dIndex feats @ map homogeneous (filter good ps)"
proof (induction ps arbitrary: feats dIndex)
  case Nil
  then show ?case by simp
next
  case (Cons p ps)
  show ?case
  proof (cases "good p")
    case False
    with Cons show ?thesis by (simp add: good_def)
  next
    case True
    let ?c = "homogeneous p"
    from True Cons.prems have len: "dIndex < length feats" by simp
    from True Cons.prems
    have "length (feats[dIndex := ?c]) = (dIndex + 1) + length (filter good ps)" by simp
    from Cons.IH [OF this]
    have "fillFeatures ps (feats[dIndex := ?c]) (dIndex + 1) =
          take (dIndex + 1) (feats[dIndex := ?c]) @ map homogeneous (filter good ps)" .
    moreover from len have "take (dIndex + 1) (feats[dIndex := ?c]) = take dIndex feats @ [?c]"
      by (simp add: take_Suc_conv_app_nth)
    moreover from True have "fillFeatures (p # ps) feats dIndex =
          fillFeatures ps (feats[dIndex := ?c]) (dIndex + 1)"
      by (simp add: good_def homogeneous_def)
    ultimately show ?thesis using True by simp
  qed
qed

lemma fillFeatures_all:
  "fillFeatures ps (Features_alloc (countGood ps 0)) 0 = map homogeneous (filter good ps)"
  by (simp add: fillFeatures_take Features_alloc_def countGood_filter)

lemma features_makeDP: "features (makeDP ps) = map homogeneous (filter good ps)"
  by (simp add: makeDP_def fillFeatures_all)

section \<open>Rounding to double\<close>

lemma roundEven_cases:
  "roundEven x = \<lfloor>x\<rfloor> \<or> roundEven x = \<lfloor>x\<rfloor> + 1"
  by (simp add: roundEven_def Let_def)

lemma roundEven_of_int: "roundEven (of_int n) = n"
  by (simp add: roundEven_def)

lemma roundEven_ge: "of_int n \<le> x \<Longrightarrow> n \<le> roundEven x"
proof -
  assume "of_int n \<le> x"
  then have "n \<le> \<lfloor>x\<rfloor>" by (simp add: le_floor_iff)
  with roundEven_cases [of x] show ?thesis by auto
qed

lemma roundEven_le: "x \<le> of_int n \<Longrightarrow> roundEven x \<le> n"
proof (cases "x = of_int n")
  case True
  then show ?thesis by (simp add: roundEven_of_int)
next
  case False
  assume "x \<le> of_int n"
  with False have "x < of_int n" by simp
  then have "\<lfloor>x\<rfloor> < n" by (simp add: floor_less_iff)
  with roundEven_cases [of x] show ?thesis by auto
qed

lemma roundEven_mono: "x \<le> y \<Longrightarrow> roundEven x \<le> roundEven y"
proof -
  assume xy: "x \<le> y"
  then have f: "\<lfloor>x\<rfloor> \<le> \<lfloor>y\<rfloor>" by (rule floor_mono)
  show ?thesis
  proof (cases "\<lfloor>x\<rfloor> = \<lfloor>y\<rfloor>")
    case True
    with xy show ?thesis by (auto simp add: roundEven_def Let_def)
  next
    case False
    with f have "\<lfloor>x\<rfloor> + 1 \<le> \<lfloor>y\<rfloor>" by simp
    moreover have "roundEven x \<le> \<lfloor>x\<rfloor> + 1" using roundEven_cases [of x] by auto
    moreover have "\<lfloor>y\<rfloor> \<le> roundEven y" using roundEven_cases [of y] by auto
    ultimately show ?thesis by linarith
  qed
qed

lemma roundEven_error: "\<bar>of_int (roundEven x) - x\<bar> \<le> 1 / 2"
proof -
  have "of_int \<lfloor>x\<rfloor> \<le> x" "x < of_int \<lfloor>x\<rfloor> + 1" by linarith+
  then show ?thesis by (auto simp add: roundEven_def Let_def abs_le_iff)
qed

lemma exponent_bounds:
  assumes "0 < q"
  shows "2 powi exponent q \<le> q" and "q < 2 powi (exponent q + 1)"
proof -
  obtain a b where ab: "quotient_of q = (a, b)" by (cases "quotient_of q")
  then have b: "0 < b" by (rule quotient_of_denom_pos)
  from ab have q: "q = of_int a / of_int b" by (rule quotient_of_div)
  with assms b have a: "0 < a" by (simp add: zero_less_divide_iff)
  let ?d = "bitlen a - bitlen b"
  have pos: "1 \<le> bitlen a" "1 \<le> bitlen b"
    using a b by (simp_all add: bitlen_alt_def)
  have a1: "(2::rat) powi (bitlen a - 1) \<le> of_int a"
  proof -
    from bitlen_bounds [OF a] have "(2::int) ^ nat (bitlen a - 1) \<le> a" by simp
    then have "(of_int ((2::int) ^ nat (bitlen a - 1)) :: rat) \<le> of_int a"
      by (simp only: of_int_le_iff)
    with pos show ?thesis by (simp add: power_int_nonneg_exp)
  qed
  have a2: "of_int a < (2::rat) powi bitlen a"
  proof -
    from bitlen_bounds [OF a] have "a < (2::int) ^ nat (bitlen a)" by simp
    then have "(of_int a :: rat) < of_int ((2::int) ^ nat (bitlen a))"
      by (simp only: of_int_less_iff)
    with pos show ?thesis by (simp add: power_int_nonneg_exp)
  qed
  have b1: "(2::rat) powi (bitlen b - 1) \<le> of_int b"
  proof -
    from bitlen_bounds [OF b] have "(2::int) ^ nat (bitlen b - 1) \<le> b" by simp
    then have "(of_int ((2::int) ^ nat (bitlen b - 1)) :: rat) \<le> of_int b"
      by (simp only: of_int_le_iff)
    with pos show ?thesis by (simp add: power_int_nonneg_exp)
  qed
  have b2: "of_int b < (2::rat) powi bitlen b"
  proof -
    from bitlen_bounds [OF b] have "b < (2::int) ^ nat (bitlen b)" by simp
    then have "(of_int b :: rat) < of_int ((2::int) ^ nat (bitlen b))"
      by (simp only: of_int_less_iff)
    with pos show ?thesis by (simp add: power_int_nonneg_exp)
  qed
  have p: "(0::rat) < 2 powi k" for k :: int
    by (simp add: zero_less_power_int)
  have lo: "(2::rat) powi (?d - 1) < q"
  proof -
    have "(2::rat) powi (?d - 1) = 2 powi ((bitlen a - 1) - bitlen b)"
      by (simp add: algebra_simps)
    also have "\<dots> = 2 powi (bitlen a - 1) / 2 powi bitlen b"
      by (simp add: power_int_diff)
    also have "\<dots> < of_int a / of_int b"
      using p a1 b b2 by (intro frac_less2) simp_all
    finally show ?thesis by (simp add: q)
  qed
  have hi: "q < (2::rat) powi (?d + 1)"
  proof -
    have "of_int a / of_int b < (2::rat) powi bitlen a / 2 powi (bitlen b - 1)"
      using p a a2 b1 by (intro frac_less) simp_all
    also have "\<dots> = 2 powi (bitlen a - (bitlen b - 1))"
      by (simp add: power_int_diff)
    also have "\<dots> = 2 powi (?d + 1)"
      by (simp add: algebra_simps)
    finally show ?thesis by (simp add: q)
  qed
  have e: "exponent q = (if 2 powi ?d \<le> q then ?d else ?d - 1)"
    by (simp add: exponent_def ab Let_def)
  show "2 powi exponent q \<le> q" using lo by (simp add: e)
  show "q < 2 powi (exponent q + 1)" using hi by (auto simp add: e)
qed

lemma pow2_pos: "(0::rat) < 2 powi k"
  by (simp add: zero_less_power_int)

lemma pow2_add: "(2::rat) powi a * 2 powi b = 2 powi (a + b)"
  by (simp add: power_int_add)

lemma pow2_less_cancel:
  assumes "(2::rat) powi m < 2 powi n"
  shows "m < n"
proof (rule ccontr)
  assume "\<not> m < n"
  then have "n \<le> m" by simp
  then have "(2::rat) powi n \<le> 2 powi m" by (intro power_int_increasing) simp_all
  with assms show False by simp
qed

lemma exponent_unique:
  assumes "2 powi e \<le> q" and "q < 2 powi (e + 1)"
  shows "exponent q = e"
proof -
  from pow2_pos [of e] assms(1) have pos: "0 < q" by (rule less_le_trans)
  note b = exponent_bounds [OF pos]
  have "(2::rat) powi e < 2 powi (exponent q + 1)" using assms(1) b(2) by (rule le_less_trans)
  then have "e < exponent q + 1" by (rule pow2_less_cancel)
  moreover have "(2::rat) powi exponent q < 2 powi (e + 1)"
    using b(1) assms(2) by (rule le_less_trans)
  then have "exponent q < e + 1" by (rule pow2_less_cancel)
  ultimately show ?thesis by simp
qed

lemma exponent_mono:
  assumes "0 < q1" and "q1 \<le> q2"
  shows "exponent q1 \<le> exponent q2"
proof -
  from assms have pos2: "0 < q2" by simp
  have "(2::rat) powi exponent q1 \<le> q1" by (rule exponent_bounds(1) [OF assms(1)])
  also have "q1 \<le> q2" by (rule assms(2))
  also have "q2 < 2 powi (exponent q2 + 1)" by (rule exponent_bounds(2) [OF pos2])
  finally have "exponent q1 < exponent q2 + 1" by (rule pow2_less_cancel)
  then show ?thesis by simp
qed


text \<open>Rounding a positive value.\<close>

lemma roundDouble_pos_eq:
  "0 < q \<Longrightarrow>
   roundDouble q = of_int (roundEven (q * 2 powi (52 - exponent q))) * 2 powi (exponent q - 52)"
  by (simp add: roundDouble_def Let_def)

lemma scaled_bounds:
  assumes "0 < q"
  shows "of_int (2 ^ 52) \<le> q * 2 powi (52 - exponent q)"
    and "q * 2 powi (52 - exponent q) \<le> of_int (2 ^ 53)"
proof -
  let ?e = "exponent q"
  note b = exponent_bounds [OF assms]
  have "(2::rat) powi ?e * 2 powi (52 - ?e) = 2 powi 52"
    using pow2_add [of ?e "52 - ?e"] by simp
  moreover have "2 powi ?e * 2 powi (52 - ?e) \<le> q * 2 powi (52 - ?e)"
    using b(1) pow2_pos [of "52 - ?e"] by (intro mult_right_mono) simp_all
  ultimately show "of_int (2 ^ 52) \<le> q * 2 powi (52 - ?e)" by simp
  have "(2::rat) powi (?e + 1) * 2 powi (52 - ?e) = 2 powi 53"
    using pow2_add [of "?e + 1" "52 - ?e"] by simp
  moreover have "q * 2 powi (52 - ?e) \<le> 2 powi (?e + 1) * 2 powi (52 - ?e)"
    using b(2) pow2_pos [of "52 - ?e"] by (intro mult_right_mono) simp_all
  ultimately show "q * 2 powi (52 - ?e) \<le> of_int (2 ^ 53)" by simp
qed

lemma roundDouble_bounds:
  assumes "0 < q"
  shows "2 powi exponent q \<le> roundDouble q" and "roundDouble q \<le> 2 powi (exponent q + 1)"
proof -
  let ?e = "exponent q"
  let ?m = "roundEven (q * 2 powi (52 - ?e))"
  note s = scaled_bounds [OF assms]
  have "2 ^ 52 \<le> ?m" by (rule roundEven_ge [OF s(1)])
  then have "(of_int (2 ^ 52) :: rat) \<le> of_int ?m" by (simp only: of_int_le_iff)
  then have lo: "(2::rat) powi 52 \<le> of_int ?m" by simp
  have "?m \<le> 2 ^ 53" by (rule roundEven_le [OF s(2)])
  then have "(of_int ?m :: rat) \<le> of_int (2 ^ 53)" by (simp only: of_int_le_iff)
  then have hi: "of_int ?m \<le> (2::rat) powi 53" by simp
  have "(2::rat) powi ?e = 2 powi 52 * 2 powi (?e - 52)"
    using pow2_add [of 52 "?e - 52"] by simp
  also have "\<dots> \<le> of_int ?m * 2 powi (?e - 52)"
    using lo pow2_pos [of "?e - 52"] by (intro mult_right_mono) simp_all
  finally show "2 powi ?e \<le> roundDouble q" by (simp add: roundDouble_pos_eq [OF assms])
  have "of_int ?m * (2::rat) powi (?e - 52) \<le> 2 powi 53 * 2 powi (?e - 52)"
    using hi pow2_pos [of "?e - 52"] by (intro mult_right_mono) simp_all
  also have "\<dots> = 2 powi (?e + 1)"
    using pow2_add [of 53 "?e - 52"] by (simp add: add.commute)
  finally show "roundDouble q \<le> 2 powi (?e + 1)" by (simp add: roundDouble_pos_eq [OF assms])
qed

lemma roundDouble_pos:
  assumes "0 < q"
  shows "0 < roundDouble q"
  using pow2_pos [of "exponent q"] roundDouble_bounds(1) [OF assms] by (rule less_le_trans)

lemma roundDouble_mono:
  assumes "0 < q1" and "q1 \<le> q2"
  shows "roundDouble q1 \<le> roundDouble q2"
proof -
  from assms have pos2: "0 < q2" by simp
  have e: "exponent q1 \<le> exponent q2" by (rule exponent_mono [OF assms])
  show ?thesis
  proof (cases "exponent q1 = exponent q2")
    case True
    let ?e = "exponent q2"
    have "q1 * 2 powi (52 - ?e) \<le> q2 * 2 powi (52 - ?e)"
      using assms(2) pow2_pos [of "52 - ?e"] by (intro mult_right_mono) simp_all
    then have "roundEven (q1 * 2 powi (52 - ?e)) \<le> roundEven (q2 * 2 powi (52 - ?e))"
      by (rule roundEven_mono)
    then have "(of_int (roundEven (q1 * 2 powi (52 - ?e))) :: rat)
        \<le> of_int (roundEven (q2 * 2 powi (52 - ?e)))"
      by (simp only: of_int_le_iff)
    then have "of_int (roundEven (q1 * 2 powi (52 - ?e))) * (2::rat) powi (?e - 52)
        \<le> of_int (roundEven (q2 * 2 powi (52 - ?e))) * 2 powi (?e - 52)"
      using pow2_pos [of "?e - 52"] by (intro mult_right_mono) simp_all
    then show ?thesis
      by (simp add: roundDouble_pos_eq [OF assms(1)] roundDouble_pos_eq [OF pos2] True)
  next
    case False
    with e have "exponent q1 + 1 \<le> exponent q2" by simp
    then have "(2::rat) powi (exponent q1 + 1) \<le> 2 powi exponent q2"
      by (intro power_int_increasing) simp_all
    with roundDouble_bounds(2) [OF assms(1)] roundDouble_bounds(1) [OF pos2]
    show ?thesis by linarith
  qed
qed

lemma roundDouble_one: "roundDouble 1 = 1"
  by code_simp

lemma roundDouble_le_one:
  assumes "0 < q" and "q \<le> 1"
  shows "roundDouble q \<le> 1"
  using roundDouble_mono [OF assms] by (simp add: roundDouble_one)

text \<open>Integers below \<open>2 ^ 53\<close> are doubles.\<close>

lemma roundDouble_of_nat:
  assumes "n < 2 ^ 53"
  shows "roundDouble (of_nat n) = of_nat n"
proof (cases "n = 0")
  case True
  then show ?thesis by (simp add: roundDouble_def)
next
  case False
  then have pos: "0 < (of_nat n :: rat)" by simp
  let ?e = "exponent (of_nat n)"
  note b = exponent_bounds [OF pos]
  have "(of_nat n :: rat) < of_nat (2 ^ 53)" using assms by (simp only: of_nat_less_iff)
  then have "(of_nat n :: rat) < 2 powi 53" by simp
  with b(1) have "(2::rat) powi ?e < 2 powi 53" by (rule le_less_trans)
  then have up: "?e < 53" by (rule pow2_less_cancel)
  from False have "(1::rat) \<le> of_nat n" by simp
  with b(2) have "(2::rat) powi 0 < 2 powi (?e + 1)" by simp
  then have "0 < ?e + 1" by (rule pow2_less_cancel)
  then have lo: "0 \<le> ?e" by simp
  have k: "(2::rat) powi (52 - ?e) = of_int (2 ^ nat (52 - ?e))"
    using up by (simp add: power_int_nonneg_exp)
  have "of_nat n * (2::rat) powi (52 - ?e) = of_int (int n * 2 ^ nat (52 - ?e))"
    by (simp add: k)
  then have "roundEven (of_nat n * 2 powi (52 - ?e)) = int n * 2 ^ nat (52 - ?e)"
    by (simp only: roundEven_of_int)
  then have "roundDouble (of_nat n) = of_int (int n * 2 ^ nat (52 - ?e)) * 2 powi (?e - 52)"
    by (simp only: roundDouble_pos_eq [OF pos])
  also have "\<dots> = of_nat n * (2 powi (52 - ?e) * 2 powi (?e - 52))"
    by (simp add: k)
  also have "\<dots> = of_nat n"
    using pow2_add [of "52 - ?e" "?e - 52"] by simp
  finally show ?thesis .
qed

lemma roundDouble_error:
  assumes "0 < q"
  shows "\<bar>roundDouble q - q\<bar> \<le> q / 2 ^ 53"
proof -
  let ?e = "exponent q"
  let ?s = "q * 2 powi (52 - ?e)"
  have u: "(2::rat) powi (52 - ?e) * 2 powi (?e - 52) = 1"
    using pow2_add [of "52 - ?e" "?e - 52"] by simp
  have "roundDouble q - q = (of_int (roundEven ?s) - ?s) * 2 powi (?e - 52)"
    using u by (simp add: roundDouble_pos_eq [OF assms] algebra_simps)
  then have "\<bar>roundDouble q - q\<bar> = \<bar>of_int (roundEven ?s) - ?s\<bar> * 2 powi (?e - 52)"
    using pow2_pos [of "?e - 52"] by (simp add: abs_mult)
  also have "\<dots> \<le> 1 / 2 * 2 powi (?e - 52)"
    using roundEven_error [of ?s] pow2_pos [of "?e - 52"] by (intro mult_right_mono) simp_all
  also have "\<dots> = 2 powi ?e / 2 ^ 53"
    using pow2_add [of ?e "- 53"] pow2_add [of "?e - 52" "- 1"]
    by (simp add: power_int_minus field_simps)
  also have "\<dots> \<le> q / 2 ^ 53"
    using exponent_bounds(1) [OF assms] by (intro divide_right_mono) simp_all
  finally show ?thesis .
qed

text \<open>The ratio of line 141.\<close>

lemma toDouble_pos: "0 < n \<Longrightarrow> 0 < toDouble n"
  by (simp add: toDouble_def roundDouble_pos)

lemma toDouble_mono: "0 < g \<Longrightarrow> g \<le> n \<Longrightarrow> toDouble g \<le> toDouble n"
  unfolding toDouble_def by (intro roundDouble_mono) simp_all

lemma imageRatio_bounds:
  assumes "0 < g" and "g \<le> n"
  shows "0 < imageRatio g n" and "imageRatio g n \<le> 1"
proof -
  from assms have n: "0 < n" by simp
  have x: "0 < toDouble g" by (rule toDouble_pos [OF assms(1)])
  have y: "0 < toDouble n" by (rule toDouble_pos [OF n])
  have q: "0 < toDouble g / toDouble n" using x y by simp
  have le: "toDouble g / toDouble n \<le> 1"
    using toDouble_mono [OF assms] y by simp
  show "0 < imageRatio g n" unfolding imageRatio_def ddiv_def by (rule roundDouble_pos [OF q])
  show "imageRatio g n \<le> 1"
    unfolding imageRatio_def ddiv_def by (rule roundDouble_le_one [OF q le])
qed

lemma imageRatio_exact_operands:
  assumes "0 < g" and "g \<le> n" and "n < 2 ^ 53"
  shows "imageRatio g n = roundDouble (of_nat g / of_nat n)"
    and "\<bar>imageRatio g n - of_nat g / of_nat n\<bar> \<le> (of_nat g / of_nat n) / 2 ^ 53"
proof -
  from assms have g53: "g < 2 ^ 53" by simp
  show eq: "imageRatio g n = roundDouble (of_nat g / of_nat n)"
    by (simp add: imageRatio_def ddiv_def toDouble_def roundDouble_of_nat [OF g53]
        roundDouble_of_nat [OF assms(3)])
  from assms have "0 < (of_nat g :: rat) / of_nat n" by simp
  from roundDouble_error [OF this]
  show "\<bar>imageRatio g n - of_nat g / of_nat n\<bar> \<le> (of_nat g / of_nat n) / 2 ^ 53"
    by (simp only: eq)
qed

text \<open>The product with the identity on the left.\<close>

lemma finite_scalar_units:
  assumes "isfinite a"
  shows "smul (Finite 1) a = a" and "smul (Finite 0) a = Finite 0"
    and "sadd (Finite 0) a = a" and "sadd a (Finite 0) = a"
  using assms by (cases a; simp)+

lemma dot4_units:
  assumes "finite4 (a, b, c, d)"
  shows "dot4 (Finite 1, Finite 0, Finite 0, Finite 0) (a, b, c, d) = a"
    and "dot4 (Finite 0, Finite 1, Finite 0, Finite 0) (a, b, c, d) = b"
    and "dot4 (Finite 0, Finite 0, Finite 1, Finite 0) (a, b, c, d) = c"
    and "dot4 (Finite 0, Finite 0, Finite 0, Finite 1) (a, b, c, d) = d"
  using assms by (simp_all add: finite_scalar_units)

lemma matrixProduct_identity_left:
  assumes "finiteTP D"
  shows "matrixProduct identityTP D = D"
proof -
  obtain a00 a01 a02 a03 a10 a11 a12 a13 a20 a21 a22 a23 a30 a31 a32 a33 where
    D: "D = ((a00, a01, a02, a03), (a10, a11, a12, a13),
             (a20, a21, a22, a23), (a30, a31, a32, a33))"
    by (metis prod.collapse)
  from assms have c: "finite4 (a00, a10, a20, a30)" "finite4 (a01, a11, a21, a31)"
    "finite4 (a02, a12, a22, a32)" "finite4 (a03, a13, a23, a33)"
    by (simp_all add: D)
  show ?thesis
    unfolding D identityTP_def
    by (simp add: dot4_units [OF c(1)] dot4_units [OF c(2)] dot4_units [OF c(3)]
        dot4_units [OF c(4)] del: dot4.simps)
qed

section \<open>The events of each part of the callback\<close>

lemma events_append:
  "registrationCalls (a @ b) = registrationCalls a @ registrationCalls b"
  "resets (a @ b) = resets a @ resets b"
  "deltaPoses (a @ b) = deltaPoses a @ deltaPoses b"
  "pathEvents (a @ b) = pathEvents a @ pathEvents b"
  "broadcasts (a @ b) = broadcasts a @ broadcasts b"
  by (simp_all add: registrationCalls_def resets_def deltaPoses_def pathEvents_def broadcasts_def)

lemma events_reportCloud:
  "registrationCalls (reportCloud n g r) = []"
  "resets (reportCloud n g r) = []"
  "deltaPoses (reportCloud n g r) = []"
  "pathEvents (reportCloud n g r) = []"
  "broadcasts (reportCloud n g r) = []"
  by (simp_all add: registrationCalls_def resets_def deltaPoses_def pathEvents_def broadcasts_def
      reportCloud_def)

lemma events_noGoodPoints:
  "registrationCalls (noGoodPoints m cm) = []"
  "resets (noGoodPoints m cm) = []"
  "deltaPoses (noGoodPoints m cm) =
     (if sendDeltaPoseMessage cm then [\<lparr> pwc_stamp = header_stamp m, pwc_pose = nanPose \<rparr>] else [])"
  "pathEvents (noGoodPoints m cm) = []"
  "broadcasts (noGoodPoints m cm) = []"
  by (simp_all add: registrationCalls_def resets_def deltaPoses_def pathEvents_def broadcasts_def
      noGoodPoints_def)

lemma events_callIcp:
  "registrationCalls (fst (callIcp E dp s)) = [dp]"
  "resets (fst (callIcp E dp s)) = []"
  "deltaPoses (fst (callIcp E dp s)) = []"
  "pathEvents (fst (callIcp E dp s)) = []"
  "broadcasts (fst (callIcp E dp s)) = []"
  by (simp_all add: registrationCalls_def resets_def deltaPoses_def pathEvents_def broadcasts_def
      callIcp_def split: prod.splits bool.splits)

lemma callIcp_result: "snd (callIcp E dp s) = icp_call E dp s"
  by (simp add: callIcp_def split: prod.splits bool.splits)

lemma events_sendDeltaPose:
  "registrationCalls (fst (sendDeltaPose E m dp sd ok s)) = []"
  "resets (fst (sendDeltaPose E m dp sd ok s)) = (if sd \<and> \<not> ok then [dp] else [])"
  "deltaPoses (fst (sendDeltaPose E m dp sd ok s)) =
     (if sd then [\<lparr> pwc_stamp = header_stamp m,
                     pwc_pose = (if ok then deltaPose E (getDeltaTransform E s) else nanPose) \<rparr>]
      else [])"
  "pathEvents (fst (sendDeltaPose E m dp sd ok s)) = []"
  "broadcasts (fst (sendDeltaPose E m dp sd ok s)) = []"
  by (simp_all add: registrationCalls_def resets_def deltaPoses_def pathEvents_def broadcasts_def
      sendDeltaPose_def Let_def)

lemma sendDeltaPose_state:
  "snd (sendDeltaPose E m dp sd ok s) = (if sd \<and> \<not> ok then resetTracking E dp s else s)"
  by (simp add: sendDeltaPose_def Let_def)

lemma events_broadcast:
  "registrationCalls (fst (broadcast E m cm s)) = []"
  "resets (fst (broadcast E m cm s)) = []"
  "deltaPoses (fst (broadcast E m cm s)) = []"
  "pathEvents (fst (broadcast E m cm s)) =
     (if keyFrameCreatedAtLastCall E s then [snd (broadcast E m cm s)] else [])"
  "broadcasts (fst (broadcast E m cm s)) =
     [tfTransform E (getTransform E s) (header_stamp m) (fixedFrame cm) (sensorFrame cm)]"
  by (simp_all add: registrationCalls_def resets_def deltaPoses_def pathEvents_def broadcasts_def
      broadcast_def Let_def)

lemma broadcast_path:
  "snd (broadcast E m cm s) =
     (if keyFrameCreatedAtLastCall E s
      then (path cm)\<lparr> poses := poses (path cm) @ [pathPose E (getTransform E s) (sensorFrame cm)] \<rparr>
      else path cm)"
  by (simp add: broadcast_def Let_def)

lemma filterCloud_None: "countGood pts 0 = 0 \<Longrightarrow> filterCloud pts = None"
  by (simp add: filterCloud_def)

lemma filterCloud_Some:
  "countGood pts 0 \<noteq> 0 \<Longrightarrow>
   filterCloud pts = Some (makeDP pts, countGood pts 0, imageRatio (countGood pts 0) (length pts))"
  by (simp add: filterCloud_def Let_def)

lemma processCloud_noGood:
  "countGood (points m) 0 = 0 \<Longrightarrow> processCloud E m cm = (noGoodPoints m cm, cm)"
  by (simp add: processCloud_def filterCloud_None)

text \<open>The non-empty path of the body, with the ICP state after the call and after the reset.\<close>

lemma processCloud_good:
  assumes "countGood (points m) 0 \<noteq> 0"
    and "icp_call E (makeDP (points m)) (icp cm) = (ok, s1)"
    and "s2 = (if sendDeltaPoseMessage cm \<and> \<not> ok then resetTracking E (makeDP (points m)) s1 else s1)"
  shows "processCloud E m cm =
     (reportCloud (length (points m)) (countGood (points m) 0)
        (imageRatio (countGood (points m) 0) (length (points m))) @
      fst (callIcp E (makeDP (points m)) (icp cm)) @
      fst (sendDeltaPose E m (makeDP (points m)) (sendDeltaPoseMessage cm) ok s1) @
      fst (broadcast E m cm s2),
      cm\<lparr> icp := s2, path := snd (broadcast E m cm s2) \<rparr>)"
proof -
  let ?dp = "makeDP (points m)"
  obtain ev2 where c: "callIcp E ?dp (icp cm) = (ev2, ok, s1)"
    using callIcp_result [of E ?dp "icp cm"] assms(2)
    by (cases "callIcp E ?dp (icp cm)") simp
  obtain ev3 where d: "sendDeltaPose E m ?dp (sendDeltaPoseMessage cm) ok s1 = (ev3, s2)"
    using sendDeltaPose_state [of E m ?dp "sendDeltaPoseMessage cm" ok s1] assms(3)
    by (cases "sendDeltaPose E m ?dp (sendDeltaPoseMessage cm) ok s1") simp
  obtain ev4 p1 where b: "broadcast E m cm s2 = (ev4, p1)"
    by (cases "broadcast E m cm s2")
  show ?thesis
    unfolding processCloud_def filterCloud_Some [OF assms(1)]
    by (simp add: c d b)
qed

text \<open>The transform broadcast on a frame that reaches the ICP call.\<close>

lemma gotCloud_broadcasts:
  assumes "\<not> dropCount cm < startupDropCount cm"
    and "countGood (points m) 0 \<noteq> 0"
  shows "broadcasts (fst (gotCloud E m cm)) =
     [tfTransform E (getTransform E (icp (snd (gotCloud E m cm))))
        (header_stamp m) (fixedFrame cm) (sensorFrame cm)]"
proof -
  obtain ok s1 where c: "icp_call E (makeDP (points m)) (icp cm) = (ok, s1)"
    by (cases "icp_call E (makeDP (points m)) (icp cm)")
  note pc = processCloud_good [OF assms(2) c refl]
  from assms(1) have gc: "gotCloud E m cm = processCloud E m cm" by (simp add: gotCloud_def)
  show ?thesis
    unfolding gc pc
    by (simp add: events_append events_reportCloud events_callIcp events_sendDeltaPose
        events_broadcast)
qed

section \<open>Good points and valid points\<close>

lemma spec_valid_good: "spec_valid p \<Longrightarrow> good p"
  by (cases "pt_x p") (simp_all add: spec_valid_def good_def)

lemma countGood_pos: "p \<in> set ps \<Longrightarrow> good p \<Longrightarrow> countGood ps 0 \<noteq> 0"
  by (simp add: countGood_filter filter_empty_conv) blast

lemma countGood_le: "countGood ps 0 \<le> length ps"
  by (simp add: countGood_filter)

section \<open>The warm-up counter over a run of frames\<close>

text \<open>Below \<open>startupDropCount\<close> the increment of the 32-bit counter does not wrap.\<close>

lemma dropCount_step: "(d::32 word) < n \<Longrightarrow> unat (d + 1) = unat d + 1"
  by unat_arith

lemma dropCount_step_le: "(d::32 word) < n \<Longrightarrow> d + 1 \<le> n"
  by unat_arith

lemma gotCloud_tracking:
  "\<not> dropCount cm < startupDropCount cm \<Longrightarrow> gotCloud E m cm = processCloud E m cm"
  by (simp add: gotCloud_def)

lemma gotCloud_dropping:
  "dropCount cm < startupDropCount cm \<Longrightarrow>
   gotCloud E m cm = ([], cm\<lparr> dropCount := dropCount cm + 1 \<rparr>)"
  by (simp add: gotCloud_def)

lemma processCloud_counters:
  "dropCount (snd (processCloud E m cm)) = dropCount cm"
  "startupDropCount (snd (processCloud E m cm)) = startupDropCount cm"
  by (simp_all add: processCloud_def Let_def split: option.splits prod.splits)

lemma gotCloud_startupDropCount:
  "startupDropCount (snd (gotCloud E m cm)) = startupDropCount cm"
  by (simp add: gotCloud_def processCloud_counters)

lemma gotCloud_dropCount:
  "unat (dropCount (snd (gotCloud E m cm))) =
     (if dropCount cm < startupDropCount cm then unat (dropCount cm) + 1 else unat (dropCount cm))"
  by (simp add: gotCloud_def processCloud_counters dropCount_step)

lemma run_Cons:
  "run E (f # fs) cm =
     (fst (gotCloud E f cm) # fst (run E fs (snd (gotCloud E f cm))),
      snd (run E fs (snd (gotCloud E f cm))))"
  by (simp split: prod.splits)

declare run.simps(2) [simp del]

lemma run_append:
  "run E (fs @ gs) cm =
     (fst (run E fs cm) @ fst (run E gs (snd (run E fs cm))),
      snd (run E gs (snd (run E fs cm))))"
  by (induction fs arbitrary: cm) (simp_all add: run_Cons)

lemma run_startupDropCount:
  "startupDropCount (snd (run E fs cm)) = startupDropCount cm"
  by (induction fs arbitrary: cm) (simp_all add: run_Cons gotCloud_startupDropCount)

lemma run_dropCount:
  "dropCount cm \<le> startupDropCount cm \<Longrightarrow>
   unat (dropCount (snd (run E fs cm))) =
     min (unat (dropCount cm) + length fs) (unat (startupDropCount cm))"
proof (induction fs arbitrary: cm)
  case Nil
  then show ?case by (simp add: word_le_nat_alt)
next
  case (Cons f fs)
  let ?cm1 = "snd (gotCloud E f cm)"
  have s: "startupDropCount ?cm1 = startupDropCount cm" by (rule gotCloud_startupDropCount)
  have d: "unat (dropCount ?cm1) =
     (if dropCount cm < startupDropCount cm then unat (dropCount cm) + 1 else unat (dropCount cm))"
    by (rule gotCloud_dropCount)
  have le: "dropCount ?cm1 \<le> startupDropCount ?cm1"
    using Cons.prems d s by (simp add: word_le_nat_alt word_less_nat_alt split: if_splits)
  have "unat (dropCount (snd (run E (f # fs) cm))) = unat (dropCount (snd (run E fs ?cm1)))"
    by (simp add: run_Cons)
  also have "\<dots> = min (unat (dropCount ?cm1) + length fs) (unat (startupDropCount ?cm1))"
    by (rule Cons.IH [OF le])
  also have "\<dots> = min (unat (dropCount cm) + length (f # fs)) (unat (startupDropCount cm))"
    using Cons.prems d s by (simp add: word_le_nat_alt word_less_nat_alt split: if_splits)
  finally show ?case .
qed

lemma run_warm_up:
  "unat (dropCount cm) + length fs \<le> unat (startupDropCount cm) \<Longrightarrow>
   run E fs cm = (replicate (length fs) [], cm\<lparr> dropCount := dropCount cm + of_nat (length fs) \<rparr>)"
proof (induction fs arbitrary: cm)
  case Nil
  then show ?case by simp
next
  case (Cons f fs)
  from Cons.prems have lt: "dropCount cm < startupDropCount cm"
    by (simp add: word_less_nat_alt)
  let ?cm1 = "cm\<lparr> dropCount := dropCount cm + 1 \<rparr>"
  have g: "gotCloud E f cm = ([], ?cm1)" by (rule gotCloud_dropping [OF lt])
  have "unat (dropCount ?cm1) + length fs \<le> unat (startupDropCount ?cm1)"
    using Cons.prems dropCount_step [OF lt] by simp
  from Cons.IH [OF this] show ?case
    by (simp add: run_Cons g add.assoc)
qed

lemma run_tracking:
  "dropCount cm = startupDropCount cm \<Longrightarrow>
   dropCount (snd (run E fs cm)) = startupDropCount (snd (run E fs cm))"
proof (induction fs arbitrary: cm)
  case Nil
  then show ?case by simp
next
  case (Cons f fs)
  from Cons.prems have "gotCloud E f cm = processCloud E f cm"
    by (simp add: gotCloud_tracking)
  with Cons.prems
  have "dropCount (snd (gotCloud E f cm)) = startupDropCount (snd (gotCloud E f cm))"
    by (simp add: processCloud_counters)
  from Cons.IH [OF this] show ?case by (simp add: run_Cons)
qed

lemma filterCloud_eq:
  "filterCloud pts =
     (if length (filter good pts) = 0 then None
      else Some (makeDP pts, length (filter good pts),
                 imageRatio (length (filter good pts)) (length pts)))"
  by (simp add: filterCloud_def Let_def countGood_filter)

section \<open>The example frames and trackers, evaluated\<close>

lemmas example_defs =
  tracking_def atOrigin_def CloudMatcher_init_def Registration_init_def
  frameTwoGood_def frameOneGood_def frameAllNaN_def frameEmpty_def frameHalfNaN_def
  pGood_def pNaN_def pHalfNaN_def t1_def t2_def
  exampleRegistration_def specRegistration_def examplePolicy_def turningPolicy_def
  reg_match_def reg_resetTracking_def sizeSolver_def quarterTurn_def
  features_makeDP good_def homogeneous_def identityTP_def stepForward_def

lemma example_past_warm_up:
  "\<not> dropCount (tracking sd) < startupDropCount (tracking sd)"
  "\<not> dropCount (atOrigin sd) < startupDropCount (atOrigin sd)"
  by (simp_all add: tracking_def atOrigin_def CloudMatcher_init_def)

lemma example_counts:
  "countGood (points frameTwoGood) 0 = 2"
  "countGood (points frameOneGood) 0 = 1"
  "countGood (points frameAllNaN) 0 = 0"
  "countGood (points frameEmpty) 0 = 0"
  "countGood (points frameHalfNaN) 0 = 1"
  by (simp_all add: frameTwoGood_def frameOneGood_def frameAllNaN_def frameEmpty_def
      frameHalfNaN_def pGood_def pNaN_def pHalfNaN_def)

lemma example_sizes:
  "length (points frameTwoGood) = 3"
  "length (points frameOneGood) = 2"
  "length (points frameHalfNaN) = 1"
  by (simp_all add: frameTwoGood_def frameOneGood_def frameHalfNaN_def)

lemma example_features:
  "features (makeDP (points frameTwoGood)) =
     [(Finite 1, Finite 2, Finite 3, Finite 1), (Finite 1, Finite 2, Finite 3, Finite 1)]"
  "features (makeDP (points frameOneGood)) = [(Finite 1, Finite 2, Finite 3, Finite 1)]"
  "features (makeDP (points frameHalfNaN)) = [(Finite 1, NaN, PosInf, Finite 1)]"
  by (simp_all add: features_makeDP good_def homogeneous_def frameTwoGood_def frameOneGood_def
      frameHalfNaN_def pGood_def pNaN_def pHalfNaN_def)

lemma example_failure:
  "reg_match examplePolicy (makeDP (points frameOneGood)) (icp (tracking sd)) =
     (False, (icp (tracking sd))\<lparr> keyFrameCreated := False \<rparr>)"
  by (simp add: reg_match_def tracking_def CloudMatcher_init_def Registration_init_def
      examplePolicy_def sizeSolver_def example_features)

lemma example_success:
  "reg_match examplePolicy (makeDP (points frameTwoGood)) (icp (atOrigin sd)) =
     (True, (icp (atOrigin sd))\<lparr>
        keyframe := Some (makeDP (points frameTwoGood)),
        absoluteTransform := stepForward,
        deltaTransform := stepForward,
        matchRatio := Finite (1 / 2),
        keyFrameCreated := True \<rparr>)"
  by (simp add: reg_match_def atOrigin_def CloudMatcher_init_def Registration_init_def
      examplePolicy_def sizeSolver_def example_features identityTP_def stepForward_def)

lemma example_success_tracking:
  "reg_match examplePolicy (makeDP (points frameTwoGood)) (icp (tracking sd)) =
     (True, (icp (tracking sd))\<lparr>
        keyframe := Some (makeDP (points frameTwoGood)),
        absoluteTransform :=
          ((Finite 1, Finite 0, Finite 0, Finite 4),
           (Finite 0, Finite 1, Finite 0, Finite 0),
           (Finite 0, Finite 0, Finite 1, Finite 0),
           (Finite 0, Finite 0, Finite 0, Finite 1)),
        deltaTransform := stepForward,
        matchRatio := Finite (1 / 2),
        keyFrameCreated := True \<rparr>)"
  by (simp add: reg_match_def tracking_def CloudMatcher_init_def Registration_init_def
      examplePolicy_def sizeSolver_def example_features stepForward_def)

lemma example_turning:
  "reg_match turningPolicy (makeDP (points frameTwoGood)) (icp (tracking sd)) =
     (True, (icp (tracking sd))\<lparr>
        absoluteTransform :=
          ((Finite 0, Finite (- 1), Finite 0, Finite 3),
           (Finite 1, Finite 0, Finite 0, Finite 0),
           (Finite 0, Finite 0, Finite 1, Finite 0),
           (Finite 0, Finite 0, Finite 0, Finite 1)),
        deltaTransform := quarterTurn,
        matchRatio := Finite (9 / 10),
        keyFrameCreated := False \<rparr>)"
  by (simp add: reg_match_def tracking_def CloudMatcher_init_def Registration_init_def
      turningPolicy_def stepForward_def quarterTurn_def)

lemma example_bootstrap:
  "reg_match P (makeDP (points frameTwoGood))
     (icp (CloudMatcher_init Registration_init sd ff sf 0)) =
     (True, Registration_init\<lparr>
        keyframe := Some (makeDP (points frameTwoGood)),
        keyFrameCreated := True \<rparr>)"
  by (simp add: reg_match_def CloudMatcher_init_def Registration_init_def identityTP_def)

lemma example_products:
  "matrixProduct stepForward quarterTurn =
     ((Finite 0, Finite (- 1), Finite 0, Finite 3),
      (Finite 1, Finite 0, Finite 0, Finite 0),
      (Finite 0, Finite 0, Finite 1, Finite 0),
      (Finite 0, Finite 0, Finite 0, Finite 1))"
  "matrixProduct quarterTurn stepForward =
     ((Finite 0, Finite (- 1), Finite 0, Finite 1),
      (Finite 1, Finite 0, Finite 0, Finite 2),
      (Finite 0, Finite 0, Finite 1, Finite 0),
      (Finite 0, Finite 0, Finite 0, Finite 1))"
  "matrixProduct identityTP stepForward = stepForward"
  by (simp_all add: stepForward_def quarterTurn_def identityTP_def)

lemma example_doubles:
  "imageRatio 2 3 = 6004799503160661 / 9007199254740992"
  "missingPercent (imageRatio 2 3) = 1172812402961067 / 35184372088832"
  "missingPercent (6004799503160661 / 9007199254740992) = 1172812402961067 / 35184372088832"
  "imageRatio 1 1 = 1"
  "imageRatio 1 2 = 1 / 2"
  by code_simp+

lemma example_icp_call:
  "icp_call exampleRegistration = reg_match examplePolicy"
  by (simp add: exampleRegistration_def specRegistration_def)

section \<open>The claims\<close>

subsection \<open>C1: valid points and the columns of the feature matrix\<close>

text \<open>
  C1, as amended. The callback counts a point as good if and only if its x coordinate is
  not NaN; y, z and infinite values are not examined. Every point whose three coordinates
  are finite is good. \<open>goodCount\<close> is the number of good points and the feature matrix
  has exactly one column per good point, in order, holding \<open>(x, y, z, 1)\<close>.
\<close>

theorem good_points_columns:
  "countGood ps 0 = length (filter good ps) \<and>
   features (makeDP ps) = map homogeneous (filter good ps) \<and>
   good p = (\<not> isnan (pt_x p)) \<and>
   homogeneous p = (pt_x p, pt_y p, pt_z p, Finite 1) \<and>
   (spec_valid p \<longrightarrow> good p)"
  by (simp add: countGood_filter features_makeDP spec_valid_good)
    (simp add: good_def homogeneous_def)

theorem good_points_columns_witness:
  "spec_valid pGood \<and> good pGood \<and> countGood [pGood, pNaN, pHalfNaN] 0 = 2 \<and>
   features (makeDP [pGood, pNaN, pHalfNaN]) =
     [(Finite 1, Finite 2, Finite 3, Finite 1), (Finite 1, NaN, PosInf, Finite 1)]"
  using good_points_columns [of "[pGood, pNaN, pHalfNaN]" pGood]
  by (simp add: spec_valid_def good_def homogeneous_def pGood_def pNaN_def pHalfNaN_def)

text \<open>
  C1 as stated fails: the point \<open>(1, NaN, +Inf)\<close> has a coordinate that is not finite,
  yet it is counted and gets a column.
\<close>

theorem valid_iff_all_finite_counterexample:
  "\<not> spec_valid pHalfNaN \<and> countGood [pHalfNaN] 0 = 1 \<and>
   length (features (makeDP [pHalfNaN])) \<noteq> length (filter spec_valid [pHalfNaN])"
  by (simp add: spec_valid_def pHalfNaN_def makeDP_def Features_alloc_def)

subsection \<open>C2: recovery from a convergence failure\<close>

text \<open>
  C2, as amended. On a frame past the warm-up with at least one good point on which the
  ICP call throws ConvergenceError, the ICP object is called exactly once and the callback
  completes. If the delta pose output is enabled, \<open>resetTracking\<close> is called once with the
  data points of the current frame, and exactly one delta pose message is published,
  stamped with the time of the frame, whose position and orientation components are all
  NaN (the message has no field for success: the NaN values are the signal). If the delta
  pose output is disabled, \<open>resetTracking\<close> is not called and no delta pose message is
  published.
\<close>

theorem convergence_failure_recovery:
  assumes "\<not> dropCount cm < startupDropCount cm"
    and "countGood (points m) 0 \<noteq> 0"
    and "icp_call E (makeDP (points m)) (icp cm) = (False, s1)"
  shows "registrationCalls (fst (gotCloud E m cm)) = [makeDP (points m)] \<and>
         (sendDeltaPoseMessage cm \<longrightarrow>
            resets (fst (gotCloud E m cm)) = [makeDP (points m)] \<and>
            icp (snd (gotCloud E m cm)) = resetTracking E (makeDP (points m)) s1 \<and>
            deltaPoses (fst (gotCloud E m cm)) =
              [\<lparr> pwc_stamp = header_stamp m, pwc_pose = nanPose \<rparr>] \<and>
            allNaN nanPose) \<and>
         (\<not> sendDeltaPoseMessage cm \<longrightarrow>
            resets (fst (gotCloud E m cm)) = [] \<and>
            icp (snd (gotCloud E m cm)) = s1 \<and>
            deltaPoses (fst (gotCloud E m cm)) = [])"
proof -
  note pc = processCloud_good [OF assms(2) assms(3) refl]
  show ?thesis
    unfolding gotCloud_tracking [OF assms(1)] pc
    by (simp add: events_append events_reportCloud events_callIcp events_sendDeltaPose
        events_broadcast allNaN_def nanPose_def quiet_NaN_def)
qed

theorem convergence_failure_recovery_witness:
  "resets (fst (gotCloud exampleRegistration frameOneGood (tracking True))) =
     [makeDP (points frameOneGood)] \<and>
   keyframe (icp (snd (gotCloud exampleRegistration frameOneGood (tracking True)))) =
     Some (makeDP (points frameOneGood)) \<and>
   deltaPoses (fst (gotCloud exampleRegistration frameOneGood (tracking True))) =
     [\<lparr> pwc_stamp = Time 11 500,
        pwc_pose = \<lparr> position = (NaN, NaN, NaN), orientation = Quaternion NaN NaN NaN NaN \<rparr> \<rparr>] \<and>
   resets (fst (gotCloud exampleRegistration frameOneGood (tracking False))) = [] \<and>
   deltaPoses (fst (gotCloud exampleRegistration frameOneGood (tracking False))) = []"
proof -
  have c: "countGood (points frameOneGood) 0 \<noteq> 0" by (simp add: example_counts)
  have f: "icp_call exampleRegistration (makeDP (points frameOneGood)) (icp (tracking sd)) =
     (False, (icp (tracking sd))\<lparr> keyFrameCreated := False \<rparr>)" for sd
    by (simp add: example_icp_call example_failure)
  have on: "sendDeltaPoseMessage (tracking True)"
    and off: "\<not> sendDeltaPoseMessage (tracking False)"
    by (simp_all add: tracking_def CloudMatcher_init_def)
  have r: "resetTracking exampleRegistration = reg_resetTracking"
    by (simp add: exampleRegistration_def specRegistration_def)
  have s: "header_stamp frameOneGood = Time 11 500" by (simp add: frameOneGood_def t2_def)
  show ?thesis
    using convergence_failure_recovery [where cm = "tracking True", OF example_past_warm_up(1) c f]
      convergence_failure_recovery [where cm = "tracking False", OF example_past_warm_up(1) c f]
    by (simp add: on off r s reg_resetTracking_def nanPose_def quiet_NaN_def)
qed

text \<open>
  C2 as stated fails: with the delta pose output disabled, a failed registration leaves
  the keyframe as it was; \<open>resetTracking\<close> is not called.
\<close>

theorem reset_without_delta_pose_counterexample:
  "\<not> dropCount (tracking False) < startupDropCount (tracking False) \<and>
   countGood (points frameOneGood) 0 \<noteq> 0 \<and>
   \<not> fst (icp_call exampleRegistration (makeDP (points frameOneGood)) (icp (tracking False))) \<and>
   resets (fst (gotCloud exampleRegistration frameOneGood (tracking False))) = [] \<and>
   keyframe (icp (snd (gotCloud exampleRegistration frameOneGood (tracking False)))) =
     Some (makeDP (points frameTwoGood)) \<and>
   makeDP (points frameTwoGood) \<noteq> makeDP (points frameOneGood)"
proof -
  have c: "countGood (points frameOneGood) 0 \<noteq> 0" by (simp add: example_counts)
  have f: "icp_call exampleRegistration (makeDP (points frameOneGood)) (icp (tracking False)) =
     (False, (icp (tracking False))\<lparr> keyFrameCreated := False \<rparr>)"
    by (simp add: example_icp_call example_failure)
  have off: "\<not> sendDeltaPoseMessage (tracking False)"
    by (simp add: tracking_def CloudMatcher_init_def)
  have k: "keyframe (icp (tracking False)) = Some (makeDP (points frameTwoGood))"
    by (simp add: tracking_def CloudMatcher_init_def)
  have ne: "makeDP (points frameTwoGood) \<noteq> makeDP (points frameOneGood)"
  proof
    assume "makeDP (points frameTwoGood) = makeDP (points frameOneGood)"
    then have "features (makeDP (points frameTwoGood)) = features (makeDP (points frameOneGood))"
      by simp
    then show False by (simp add: example_features)
  qed
  note pc = processCloud_good [OF c f refl]
  show ?thesis
    unfolding gotCloud_tracking [OF example_past_warm_up(1)] pc
    using c ne
    by (simp add: example_past_warm_up f off k events_append events_reportCloud events_callIcp events_sendDeltaPose
        events_broadcast)
qed

subsection \<open>C3: the transform broadcast\<close>

text \<open>
  C3. On every frame past the warm-up with at least one good point, exactly one transform
  is broadcast, whether the registration converged or failed: the transform of the
  AbsoluteTransform as the frame leaves it. With the Registration collaborator of the
  specification, on a failed frame that is the AbsoluteTransform from before the call,
  which is unchanged.
\<close>

theorem broadcast_every_frame:
  assumes "\<not> dropCount cm < startupDropCount cm"
    and "countGood (points m) 0 \<noteq> 0"
  shows "length (broadcasts (fst (gotCloud (specRegistration P quat) m cm))) = 1 \<and>
         broadcasts (fst (gotCloud (specRegistration P quat) m cm)) =
           [tfTransform (specRegistration P quat)
              (absoluteTransform (icp (snd (gotCloud (specRegistration P quat) m cm))))
              (header_stamp m) (fixedFrame cm) (sensorFrame cm)] \<and>
         (\<not> fst (reg_match P (makeDP (points m)) (icp cm)) \<longrightarrow>
            broadcasts (fst (gotCloud (specRegistration P quat) m cm)) =
              [tfTransform (specRegistration P quat) (absoluteTransform (icp cm))
                 (header_stamp m) (fixedFrame cm) (sensorFrame cm)] \<and>
            absoluteTransform (icp (snd (gotCloud (specRegistration P quat) m cm))) =
              absoluteTransform (icp cm))"
proof -
  let ?E = "specRegistration P quat"
  obtain ok s1 where c: "icp_call ?E (makeDP (points m)) (icp cm) = (ok, s1)"
    by (cases "icp_call ?E (makeDP (points m)) (icp cm)")
  then have r: "reg_match P (makeDP (points m)) (icp cm) = (ok, s1)"
    by (simp add: specRegistration_def)
  have keep: "absoluteTransform s1 = absoluteTransform (icp cm)" if "\<not> ok"
    using r that by (auto simp add: reg_match_def split: option.splits RegistrationOutcome.splits)
  note pc = processCloud_good [OF assms(2) c refl]
  have g: "getTransform ?E = absoluteTransform" "resetTracking ?E = reg_resetTracking"
    by (simp_all add: specRegistration_def)
  show ?thesis
    unfolding gotCloud_tracking [OF assms(1)] pc
    using keep
    by (simp add: events_append events_reportCloud events_callIcp events_sendDeltaPose
        events_broadcast r g reg_resetTracking_def)
qed

theorem broadcast_every_frame_witness:
  "\<not> fst (reg_match examplePolicy (makeDP (points frameOneGood)) (icp (tracking True))) \<and>
   broadcasts (fst (gotCloud exampleRegistration frameOneGood (tracking True))) =
     [\<lparr> rotation = Quaternion (Finite 0) (Finite 0) (Finite 0) (Finite 4),
        origin = (Finite 2, Finite 0, Finite 0),
        st_stamp = Time 11 500,
        frame_id = ''/world'',
        child_frame_id = ''/openni_rgb_optical_frame'' \<rparr>] \<and>
   absoluteTransform (icp (snd (gotCloud exampleRegistration frameOneGood (tracking True)))) =
     stepForward"
proof -
  have c: "countGood (points frameOneGood) 0 \<noteq> 0" by (simp add: example_counts)
  have f: "\<not> fst (reg_match examplePolicy (makeDP (points frameOneGood)) (icp (tracking True)))"
    by (simp add: example_failure)
  have t: "tfTransform exampleRegistration stepForward
             (header_stamp frameOneGood) (fixedFrame (tracking True)) (sensorFrame (tracking True)) =
           \<lparr> rotation = Quaternion (Finite 0) (Finite 0) (Finite 0) (Finite 4),
             origin = (Finite 2, Finite 0, Finite 0),
             st_stamp = Time 11 500,
             frame_id = ''/world'',
             child_frame_id = ''/openni_rgb_optical_frame'' \<rparr>"
    by (simp add: tfTransform_def example_defs)
  have a: "absoluteTransform (icp (tracking True)) = stepForward"
    by (simp add: tracking_def CloudMatcher_init_def)
  show ?thesis
    using broadcast_every_frame [where cm = "tracking True" and P = examplePolicy
        and quat = scaledQuaternion, OF example_past_warm_up(1) c]
    by (simp add: f t a exampleRegistration_def [symmetric])
qed

subsection \<open>C4: a frame without good points\<close>

text \<open>
  C4, as amended. On a frame past the warm-up in which no point is good (every x is NaN,
  or there is no point), the ICP object is neither called nor reset; if the delta pose
  output is enabled exactly one delta pose message is published, stamped with the time of
  the frame, whose position and orientation components are all NaN, and otherwise none;
  no transform is broadcast and no path is published; the state of the node is unchanged.
\<close>

theorem no_good_points_frame:
  assumes "\<not> dropCount cm < startupDropCount cm"
    and "countGood (points m) 0 = 0"
  shows "registrationCalls (fst (gotCloud E m cm)) = [] \<and>
         resets (fst (gotCloud E m cm)) = [] \<and>
         broadcasts (fst (gotCloud E m cm)) = [] \<and>
         pathEvents (fst (gotCloud E m cm)) = [] \<and>
         deltaPoses (fst (gotCloud E m cm)) =
           (if sendDeltaPoseMessage cm
            then [\<lparr> pwc_stamp = header_stamp m, pwc_pose = nanPose \<rparr>] else []) \<and>
         allNaN nanPose \<and>
         snd (gotCloud E m cm) = cm"
proof -
  from assms have "gotCloud E m cm = (noGoodPoints m cm, cm)"
    by (simp add: gotCloud_def processCloud_noGood)
  then show ?thesis
    by (simp add: events_noGoodPoints allNaN_def nanPose_def quiet_NaN_def)
qed

theorem no_good_points_frame_witness:
  "fst (gotCloud exampleRegistration frameAllNaN (tracking True)) =
     [Log NoGoodPoints,
      PosePublish \<lparr> pwc_stamp = Time 11 500,
        pwc_pose = \<lparr> position = (NaN, NaN, NaN), orientation = Quaternion NaN NaN NaN NaN \<rparr> \<rparr>] \<and>
   deltaPoses (fst (gotCloud exampleRegistration frameAllNaN (tracking True))) =
     [\<lparr> pwc_stamp = Time 11 500,
        pwc_pose = \<lparr> position = (NaN, NaN, NaN), orientation = Quaternion NaN NaN NaN NaN \<rparr> \<rparr>] \<and>
   registrationCalls (fst (gotCloud exampleRegistration frameAllNaN (tracking True))) = [] \<and>
   broadcasts (fst (gotCloud exampleRegistration frameAllNaN (tracking True))) = []"
proof -
  have c: "countGood (points frameAllNaN) 0 = 0" by (simp add: example_counts)
  have on: "sendDeltaPoseMessage (tracking True)"
    by (simp add: tracking_def CloudMatcher_init_def)
  have s: "header_stamp frameAllNaN = Time 11 500" by (simp add: frameAllNaN_def t2_def)
  have e: "fst (gotCloud exampleRegistration frameAllNaN (tracking True)) =
     [Log NoGoodPoints,
      PosePublish \<lparr> pwc_stamp = Time 11 500,
        pwc_pose = \<lparr> position = (NaN, NaN, NaN), orientation = Quaternion NaN NaN NaN NaN \<rparr> \<rparr>]"
    by (simp add: gotCloud_tracking [OF example_past_warm_up(1)] processCloud_noGood [OF c]
        noGoodPoints_def on s nanPose_def quiet_NaN_def)
  show ?thesis
    using no_good_points_frame [where cm = "tracking True" and E = exampleRegistration,
        OF example_past_warm_up(1) c] e
    by (simp add: on s nanPose_def quiet_NaN_def)
qed

text \<open>
  C4 as stated fails when validity means three finite coordinates: the frame holding only
  \<open>(1, NaN, +Inf)\<close> has no valid point, yet the ICP object is called with it.
\<close>

theorem zero_valid_points_counterexample:
  "\<not> dropCount (tracking True) < startupDropCount (tracking True) \<and>
   filter spec_valid (points frameHalfNaN) = [] \<and>
   registrationCalls (fst (gotCloud exampleRegistration frameHalfNaN (tracking True))) =
     [makeDP (points frameHalfNaN)] \<and>
   features (makeDP (points frameHalfNaN)) = [(Finite 1, NaN, PosInf, Finite 1)]"
proof -
  have c: "countGood (points frameHalfNaN) 0 \<noteq> 0" by (simp add: example_counts)
  obtain ok s1 where
    i: "icp_call exampleRegistration (makeDP (points frameHalfNaN)) (icp (tracking True)) = (ok, s1)"
    by (cases "icp_call exampleRegistration (makeDP (points frameHalfNaN)) (icp (tracking True))")
  note pc = processCloud_good [OF c i refl]
  have v: "filter spec_valid (points frameHalfNaN) = []"
    by (simp add: frameHalfNaN_def pHalfNaN_def spec_valid_def)
  show ?thesis
    unfolding gotCloud_tracking [OF example_past_warm_up(1)] pc
    by (simp add: v example_past_warm_up example_features events_append events_reportCloud
        events_callIcp events_sendDeltaPose events_broadcast)
qed

subsection \<open>C5: the warm-up\<close>

text \<open>
  C5. For a startup drop count \<open>N\<close>, the first \<open>N\<close> frames produce no event at all,
  whatever they hold: no message, no log line, no call into the ICP object, so the
  warm-up test comes before the test for an empty cloud. Frame \<open>N + 1\<close> runs the body of
  the callback, from the state in which only \<open>dropCount\<close> has changed, to \<open>N\<close>.
\<close>

theorem warm_up_frames_silent:
  assumes "N < 2 ^ 31" and "length fs \<le> N"
  shows "fst (run E fs (CloudMatcher_init icp0 sd ff sf (int N))) = replicate (length fs) [] \<and>
         (length fs = N \<longrightarrow>
            run E (fs @ [f]) (CloudMatcher_init icp0 sd ff sf (int N)) =
              (replicate N [] @
                 [fst (processCloud E f
                    ((CloudMatcher_init icp0 sd ff sf (int N))\<lparr> dropCount := of_nat N \<rparr>))],
               snd (processCloud E f
                    ((CloudMatcher_init icp0 sd ff sf (int N))\<lparr> dropCount := of_nat N \<rparr>))))"
proof -
  let ?cm0 = "CloudMatcher_init icp0 sd ff sf (int N) :: 'a CloudMatcher"
  from assms(1) have "N < 2 ^ LENGTH(32)" by simp
  then have n: "unat (of_nat N :: 32 word) = N"
    by (simp add: unat_of_nat take_bit_nat_eq_self)
  have c: "dropCount ?cm0 = 0" "startupDropCount ?cm0 = of_nat N"
    by (simp_all add: CloudMatcher_init_def)
  from assms(2) have pre: "unat (dropCount ?cm0) + length fs \<le> unat (startupDropCount ?cm0)"
    by (simp add: c n)
  note w = run_warm_up [OF pre, of E]
  have "\<not> dropCount (?cm0\<lparr> dropCount := of_nat N \<rparr>)
          < startupDropCount (?cm0\<lparr> dropCount := of_nat N \<rparr>)"
    by (simp add: c)
  note t = gotCloud_tracking [OF this, of E f]
  show ?thesis
    by (simp add: run_append run_Cons w c t)
qed

theorem warm_up_frames_silent_witness:
  "fst (run exampleRegistration [frameAllNaN, frameTwoGood]
          (CloudMatcher_init Registration_init True ''/world'' ''/cam'' 2)) = replicate 2 [] \<and>
   fst (run exampleRegistration ([frameAllNaN, frameTwoGood] @ [frameAllNaN])
          (CloudMatcher_init Registration_init True ''/world'' ''/cam'' 2)) =
     [] # [] #
      [Log NoGoodPoints,
       PosePublish \<lparr> pwc_stamp = Time 11 500,
         pwc_pose = \<lparr> position = (NaN, NaN, NaN), orientation = Quaternion NaN NaN NaN NaN \<rparr> \<rparr>] #
      []"
proof -
  have c: "countGood (points frameAllNaN) 0 = 0" by (simp add: example_counts)
  have s: "header_stamp frameAllNaN = Time 11 500" by (simp add: frameAllNaN_def t2_def)
  have n: "(2::nat) < 2 ^ 31" "length [frameAllNaN, frameTwoGood] \<le> 2" by simp_all
  show ?thesis
    using warm_up_frames_silent [where E = exampleRegistration and ?icp0.0 = Registration_init
        and sd = True and ff = "''/world''" and sf = "''/cam''" and f = frameAllNaN, OF n]
    by (simp add: processCloud_noGood [OF c] noGoodPoints_def s nanPose_def quiet_NaN_def
        CloudMatcher_init_def eval_nat_numeral)
qed

subsection \<open>C6: registration is attempted once\<close>

text \<open>
  C6. On every frame past the warm-up with at least one good point (in particular with at
  least one point whose three coordinates are finite), the call operator of the ICP object
  is applied exactly once, to the data points of the frame and to the ICP object as the
  frame found it: the object the frame leaves behind is the one that call returned (after
  \<open>resetTracking\<close> when the call failed in delta pose mode), and the log reports the
  outcome of that call. Fewer than 10000 good points only add the "partial image" log
  line, with the missing percentage as the callback computes it in doubles; the call is
  made on both sides of that threshold.
\<close>

theorem registration_attempted_once:
  assumes "\<not> dropCount cm < startupDropCount cm"
    and "p \<in> set (points m)"
    and "spec_valid p \<or> good p"
    and "icp_call E (makeDP (points m)) (icp cm) = (ok, s1)"
  shows "registrationCalls (fst (gotCloud E m cm)) = [makeDP (points m)] \<and>
         icp (snd (gotCloud E m cm)) =
           (if sendDeltaPoseMessage cm \<and> \<not> ok
            then resetTracking E (makeDP (points m)) s1 else s1) \<and>
         (Log (MatchRatio (getWeightedPointUsedRatio E s1)) \<in> set (fst (gotCloud E m cm))
            \<longleftrightarrow> ok) \<and>
         (Log FailedToConverge \<in> set (fst (gotCloud E m cm)) \<longleftrightarrow> \<not> ok) \<and>
         (Log (PartialImage
                 (missingPercent (imageRatio (countGood (points m) 0) (length (points m))))
                 (countGood (points m) 0)) \<in> set (fst (gotCloud E m cm))
            \<longleftrightarrow> countGood (points m) 0 < 10000)"
proof -
  from assms(3) have "good p" by (auto dest: spec_valid_good)
  with assms(2) have g: "countGood (points m) 0 \<noteq> 0" by (rule countGood_pos)
  note pc = processCloud_good [OF g assms(4) refl]
  from assms(1) have gc: "gotCloud E m cm = processCloud E m cm" by (simp add: gotCloud_def)
  have calls: "registrationCalls (fst (gotCloud E m cm)) = [makeDP (points m)]"
    by (simp add: gc pc events_append events_reportCloud events_callIcp events_sendDeltaPose
        events_broadcast)
  have state: "icp (snd (gotCloud E m cm)) =
      (if sendDeltaPoseMessage cm \<and> \<not> ok
       then resetTracking E (makeDP (points m)) s1 else s1)"
    by (simp add: gc pc)
  have c: "fst (callIcp E (makeDP (points m)) (icp cm)) =
      [IcpCall (makeDP (points m)),
       Log (if ok then MatchRatio (getWeightedPointUsedRatio E s1) else FailedToConverge)]"
    by (simp add: callIcp_def assms(4))
  have logs: "(Log (MatchRatio (getWeightedPointUsedRatio E s1)) \<in> set (fst (gotCloud E m cm))
        \<longleftrightarrow> ok) \<and>
      (Log FailedToConverge \<in> set (fst (gotCloud E m cm)) \<longleftrightarrow> \<not> ok) \<and>
      (Log (PartialImage
              (missingPercent (imageRatio (countGood (points m) 0) (length (points m))))
              (countGood (points m) 0)) \<in> set (fst (gotCloud E m cm))
        \<longleftrightarrow> countGood (points m) 0 < 10000)"
    unfolding gc pc c
    by (auto simp add: reportCloud_def sendDeltaPose_def broadcast_def Let_def
        split: if_splits)
  from calls state logs show ?thesis by blast
qed

theorem registration_attempted_once_witness:
  "pGood \<in> set (points frameTwoGood) \<and> spec_valid pGood \<and>
   registrationCalls (fst (gotCloud exampleRegistration frameTwoGood (tracking False))) =
     [makeDP (points frameTwoGood)] \<and>
   keyframe (icp (snd (gotCloud exampleRegistration frameTwoGood (tracking False)))) =
     Some (makeDP (points frameTwoGood)) \<and>
   block_0_3_3_1 (absoluteTransform
       (icp (snd (gotCloud exampleRegistration frameTwoGood (tracking False))))) =
     (Finite 4, Finite 0, Finite 0) \<and>
   Log (MatchRatio (Finite (1 / 2))) \<in>
     set (fst (gotCloud exampleRegistration frameTwoGood (tracking False))) \<and>
   Log FailedToConverge \<notin>
     set (fst (gotCloud exampleRegistration frameTwoGood (tracking False))) \<and>
   Log (PartialImage (1172812402961067 / 35184372088832) 2) \<in>
     set (fst (gotCloud exampleRegistration frameTwoGood (tracking False)))"
proof -
  have p: "pGood \<in> set (points frameTwoGood)" by (simp add: frameTwoGood_def)
  have sv: "spec_valid pGood" by (simp add: spec_valid_def pGood_def)
  then have v: "spec_valid pGood \<or> good pGood" by simp
  have i: "icp_call exampleRegistration (makeDP (points frameTwoGood)) (icp (tracking False)) =
     (True, (icp (tracking False))\<lparr>
        keyframe := Some (makeDP (points frameTwoGood)),
        absoluteTransform :=
          ((Finite 1, Finite 0, Finite 0, Finite 4),
           (Finite 0, Finite 1, Finite 0, Finite 0),
           (Finite 0, Finite 0, Finite 1, Finite 0),
           (Finite 0, Finite 0, Finite 0, Finite 1)),
        deltaTransform := stepForward,
        matchRatio := Finite (1 / 2),
        keyFrameCreated := True \<rparr>)"
    by (simp add: example_icp_call example_success_tracking)
  have w: "getWeightedPointUsedRatio exampleRegistration = matchRatio"
    by (simp add: exampleRegistration_def specRegistration_def)
  show ?thesis
    using registration_attempted_once [where cm = "tracking False" and E = exampleRegistration,
        OF example_past_warm_up(1) p v i]
    by (simp add: p sv w example_counts example_sizes example_doubles)
qed

subsection \<open>C7: composition on success\<close>

text \<open>
  C7. With the Registration collaborator of the specification, a successful registration
  from the AbsoluteTransform \<open>T0\<close> with DeltaTransform \<open>D\<close> (the transform the solver
  reports against the keyframe, or the identity when the frame is the first keyframe)
  leaves as AbsoluteTransform the composition of \<open>T0\<close> with \<open>D\<close>, that is the product of
  the two homogeneous matrices, \<open>T0\<close> on the left; the callback broadcasts the transform of
  that product and, if the delta pose output is enabled, publishes the pose of \<open>D\<close>. In
  particular, when \<open>T0\<close> is the identity and \<open>D\<close> has finite entries, the new
  AbsoluteTransform is \<open>D\<close>.
\<close>

theorem success_composition:
  assumes "\<not> dropCount cm < startupDropCount cm"
    and "countGood (points m) 0 \<noteq> 0"
    and "reg_match P (makeDP (points m)) (icp cm) = (True, s1)"
  shows "absoluteTransform (icp (snd (gotCloud (specRegistration P quat) m cm))) =
           matrixProduct (absoluteTransform (icp cm)) (deltaTransform s1) \<and>
         broadcasts (fst (gotCloud (specRegistration P quat) m cm)) =
           [tfTransform (specRegistration P quat)
              (matrixProduct (absoluteTransform (icp cm)) (deltaTransform s1))
              (header_stamp m) (fixedFrame cm) (sensorFrame cm)] \<and>
         (sendDeltaPoseMessage cm \<longrightarrow>
            deltaPoses (fst (gotCloud (specRegistration P quat) m cm)) =
              [\<lparr> pwc_stamp = header_stamp m,
                 pwc_pose = deltaPose (specRegistration P quat) (deltaTransform s1) \<rparr>]) \<and>
         (keyframe (icp cm) = Some K \<and>
          solver P K (makeDP (points m)) = Converged D ratio \<longrightarrow> deltaTransform s1 = D) \<and>
         (keyframe (icp cm) = None \<longrightarrow> deltaTransform s1 = identityTP) \<and>
         (absoluteTransform (icp cm) = identityTP \<and> finiteTP (deltaTransform s1) \<longrightarrow>
            absoluteTransform (icp (snd (gotCloud (specRegistration P quat) m cm))) =
              deltaTransform s1)"
proof -
  let ?E = "specRegistration P quat"
  have c: "icp_call ?E (makeDP (points m)) (icp cm) = (True, s1)"
    using assms(3) by (simp add: specRegistration_def)
  have comp: "absoluteTransform s1 =
      matrixProduct (absoluteTransform (icp cm)) (deltaTransform s1)"
    using assms(3)
    by (auto simp add: reg_match_def split: option.splits RegistrationOutcome.splits)
  have fromSolver: "deltaTransform s1 = D"
    if "keyframe (icp cm) = Some K" "solver P K (makeDP (points m)) = Converged D ratio"
    using assms(3) that by (auto simp add: reg_match_def)
  have first: "deltaTransform s1 = identityTP" if "keyframe (icp cm) = None"
    using assms(3) that by (auto simp add: reg_match_def)
  note pc = processCloud_good [OF assms(2) c refl]
  have g: "getTransform ?E = absoluteTransform" "getDeltaTransform ?E = deltaTransform"
    by (simp_all add: specRegistration_def)
  have out: "absoluteTransform (icp (snd (gotCloud ?E m cm))) =
        matrixProduct (absoluteTransform (icp cm)) (deltaTransform s1) \<and>
      broadcasts (fst (gotCloud ?E m cm)) =
        [tfTransform ?E (matrixProduct (absoluteTransform (icp cm)) (deltaTransform s1))
           (header_stamp m) (fixedFrame cm) (sensorFrame cm)] \<and>
      (sendDeltaPoseMessage cm \<longrightarrow>
         deltaPoses (fst (gotCloud ?E m cm)) =
           [\<lparr> pwc_stamp = header_stamp m, pwc_pose = deltaPose ?E (deltaTransform s1) \<rparr>])"
    unfolding gotCloud_tracking [OF assms(1)] pc
    using comp
    by (simp add: events_append events_reportCloud events_callIcp events_sendDeltaPose
        events_broadcast g)
  have unit: "absoluteTransform (icp (snd (gotCloud ?E m cm))) = deltaTransform s1"
    if "absoluteTransform (icp cm) = identityTP" "finiteTP (deltaTransform s1)"
    using out that by (simp add: matrixProduct_identity_left)
  from out fromSolver first unit show ?thesis by blast
qed

theorem success_composition_witness:
  "absoluteTransform (icp (tracking True)) = stepForward \<and>
   solver turningPolicy (makeDP (points frameTwoGood)) (makeDP (points frameTwoGood)) =
     Converged quarterTurn (Finite (9 / 10)) \<and>
   absoluteTransform
     (icp (snd (gotCloud (specRegistration turningPolicy scaledQuaternion) frameTwoGood
        (tracking True)))) =
     ((Finite 0, Finite (- 1), Finite 0, Finite 3),
      (Finite 1, Finite 0, Finite 0, Finite 0),
      (Finite 0, Finite 0, Finite 1, Finite 0),
      (Finite 0, Finite 0, Finite 0, Finite 1)) \<and>
   matrixProduct stepForward quarterTurn \<noteq> matrixProduct quarterTurn stepForward \<and>
   matrixProduct stepForward quarterTurn \<noteq> stepForward \<and>
   matrixProduct stepForward quarterTurn \<noteq> quarterTurn \<and>
   deltaPoses (fst (gotCloud (specRegistration turningPolicy scaledQuaternion) frameTwoGood
        (tracking True))) =
     [\<lparr> pwc_stamp = Time 10 0,
        pwc_pose = \<lparr> position = (Finite 1, Finite 0, Finite 0),
                     orientation = Quaternion (Finite 0) (Finite 0) (Finite 2) (Finite 2) \<rparr> \<rparr>] \<and>
   absoluteTransform
     (icp (snd (gotCloud exampleRegistration frameTwoGood
        (CloudMatcher_init Registration_init True ''/world'' ''/cam'' 0)))) = identityTP \<and>
   absoluteTransform (icp (atOrigin True)) = identityTP \<and> finiteTP stepForward \<and>
   absoluteTransform (icp (snd (gotCloud exampleRegistration frameTwoGood (atOrigin True)))) =
     stepForward"
proof -
  have c: "countGood (points frameTwoGood) 0 \<noteq> 0" by (simp add: example_counts)
  have s: "header_stamp frameTwoGood = Time 10 0" by (simp add: frameTwoGood_def t1_def)
  have a1: "absoluteTransform (icp (tracking True)) = stepForward"
    and k1: "keyframe (icp (tracking True)) = Some (makeDP (points frameTwoGood))"
    and on1: "sendDeltaPoseMessage (tracking True)"
    by (simp_all add: tracking_def CloudMatcher_init_def)
  have sol: "solver turningPolicy (makeDP (points frameTwoGood)) (makeDP (points frameTwoGood)) =
      Converged quarterTurn (Finite (9 / 10))"
    by (simp add: turningPolicy_def)
  have d: "deltaPose (specRegistration turningPolicy scaledQuaternion) quarterTurn =
      \<lparr> position = (Finite 1, Finite 0, Finite 0),
        orientation = Quaternion (Finite 0) (Finite 0) (Finite 2) (Finite 2) \<rparr>"
    by (simp add: deltaPose_def specRegistration_def quarterTurn_def)
  have ne: "matrixProduct stepForward quarterTurn \<noteq> matrixProduct quarterTurn stepForward"
    "matrixProduct stepForward quarterTurn \<noteq> stepForward"
    "matrixProduct stepForward quarterTurn \<noteq> quarterTurn"
    by (simp_all add: example_products) (simp_all add: stepForward_def quarterTurn_def)
  let ?cm0 = "CloudMatcher_init Registration_init True ''/world'' ''/cam'' 0"
  have w0: "\<not> dropCount ?cm0 < startupDropCount ?cm0" by (simp add: CloudMatcher_init_def)
  have k0: "keyframe (icp ?cm0) = None" "absoluteTransform (icp ?cm0) = identityTP"
    by (simp_all add: CloudMatcher_init_def Registration_init_def)
  have d0: "deltaTransform Registration_init = identityTP" by (simp add: Registration_init_def)
  have f0: "finiteTP identityTP" by (simp add: identityTP_def)
  have a2: "absoluteTransform (icp (atOrigin True)) = identityTP"
    by (simp add: atOrigin_def CloudMatcher_init_def Registration_init_def)
  have f2: "finiteTP stepForward" by (simp add: stepForward_def)
  have u: "matrixProduct identityTP identityTP = identityTP"
    by (rule matrixProduct_identity_left [OF f0])
  note turn = success_composition [where cm = "tracking True" and P = turningPolicy
      and quat = scaledQuaternion and K = "makeDP (points frameTwoGood)" and D = quarterTurn
      and ratio = "Finite (9 / 10)", OF example_past_warm_up(1) c example_turning]
  note boot = success_composition [where cm = ?cm0 and P = examplePolicy
      and quat = scaledQuaternion and K = "makeDP (points frameOneGood)" and D = stepForward
      and ratio = "Finite (1 / 2)", OF w0 c example_bootstrap]
  note unit = success_composition [where cm = "atOrigin True" and P = examplePolicy
      and quat = scaledQuaternion and K = "makeDP (points frameOneGood)" and D = stepForward
      and ratio = "Finite (1 / 2)", OF example_past_warm_up(2) c example_success]
  have r1: "absoluteTransform
     (icp (snd (gotCloud (specRegistration turningPolicy scaledQuaternion) frameTwoGood
        (tracking True)))) =
     ((Finite 0, Finite (- 1), Finite 0, Finite 3),
      (Finite 1, Finite 0, Finite 0, Finite 0),
      (Finite 0, Finite 0, Finite 1, Finite 0),
      (Finite 0, Finite 0, Finite 0, Finite 1))"
    using turn by (simp add: a1 example_products)
  have r2: "deltaPoses (fst (gotCloud (specRegistration turningPolicy scaledQuaternion)
        frameTwoGood (tracking True))) =
     [\<lparr> pwc_stamp = Time 10 0,
        pwc_pose = \<lparr> position = (Finite 1, Finite 0, Finite 0),
                     orientation = Quaternion (Finite 0) (Finite 0) (Finite 2) (Finite 2) \<rparr> \<rparr>]"
    using turn by (simp add: on1 d s)
  have r3: "absoluteTransform
     (icp (snd (gotCloud exampleRegistration frameTwoGood ?cm0))) = identityTP"
    using boot by (simp add: k0 d0 u exampleRegistration_def [symmetric])
  have r4: "absoluteTransform
     (icp (snd (gotCloud exampleRegistration frameTwoGood (atOrigin True)))) = stepForward"
    using unit by (simp add: a2 f2 example_products exampleRegistration_def [symmetric])
  from a1 sol r1 ne r2 r3 a2 f2 r4 show ?thesis by blast
qed

subsection \<open>C8: the path event\<close>

text \<open>
  C8. On every frame past the warm-up with at least one good point, a path is published
  if and only if \<open>keyFrameCreatedAtLastCall\<close> answers true when the callback asks, that is
  on the ICP object as the frame leaves it. The published path is the stored one, which
  is then the previous path with the pose of the global transform appended; otherwise the
  stored path is unchanged.
\<close>

theorem path_event_iff_keyframe:
  assumes "\<not> dropCount cm < startupDropCount cm"
    and "countGood (points m) 0 \<noteq> 0"
  shows "(pathEvents (fst (gotCloud E m cm)) \<noteq> [] \<longleftrightarrow>
            keyFrameCreatedAtLastCall E (icp (snd (gotCloud E m cm)))) \<and>
         pathEvents (fst (gotCloud E m cm)) =
           (if keyFrameCreatedAtLastCall E (icp (snd (gotCloud E m cm)))
            then [path (snd (gotCloud E m cm))] else []) \<and>
         path (snd (gotCloud E m cm)) =
           (if keyFrameCreatedAtLastCall E (icp (snd (gotCloud E m cm)))
            then (path cm)\<lparr> poses := poses (path cm) @
                   [pathPose E (getTransform E (icp (snd (gotCloud E m cm)))) (sensorFrame cm)] \<rparr>
            else path cm)"
proof -
  obtain ok s1 where c: "icp_call E (makeDP (points m)) (icp cm) = (ok, s1)"
    by (cases "icp_call E (makeDP (points m)) (icp cm)")
  note pc = processCloud_good [OF assms(2) c refl]
  show ?thesis
    unfolding gotCloud_tracking [OF assms(1)] pc
    by (simp add: events_append events_reportCloud events_callIcp events_sendDeltaPose
        events_broadcast broadcast_path)
qed

theorem path_event_iff_keyframe_witness:
  "keyFrameCreatedAtLastCall exampleRegistration
     (icp (snd (gotCloud exampleRegistration frameTwoGood (atOrigin False)))) \<and>
   pathEvents (fst (gotCloud exampleRegistration frameTwoGood (atOrigin False))) =
     [\<lparr> path_frame_id = ''/world'',
        poses = [\<lparr> ps_frame_id = ''/openni_rgb_optical_frame'',
                   ps_pose = \<lparr> position = (Finite 2, Finite 0, Finite 0),
                     orientation = Quaternion (Finite 0) (Finite 0) (Finite 0) (Finite 4) \<rparr> \<rparr>] \<rparr>] \<and>
   \<not> keyFrameCreatedAtLastCall exampleRegistration
     (icp (snd (gotCloud exampleRegistration frameOneGood (tracking False)))) \<and>
   pathEvents (fst (gotCloud exampleRegistration frameOneGood (tracking False))) = []"
proof -
  have c2: "countGood (points frameTwoGood) 0 \<noteq> 0" and c1: "countGood (points frameOneGood) 0 \<noteq> 0"
    by (simp_all add: example_counts)
  have off: "\<not> sendDeltaPoseMessage (atOrigin False)" "\<not> sendDeltaPoseMessage (tracking False)"
    by (simp_all add: atOrigin_def tracking_def CloudMatcher_init_def)
  have i2: "icp_call exampleRegistration (makeDP (points frameTwoGood)) (icp (atOrigin False)) =
     (True, (icp (atOrigin False))\<lparr>
        keyframe := Some (makeDP (points frameTwoGood)),
        absoluteTransform := stepForward,
        deltaTransform := stepForward,
        matchRatio := Finite (1 / 2),
        keyFrameCreated := True \<rparr>)"
    by (simp add: example_icp_call example_success)
  have i1: "icp_call exampleRegistration (makeDP (points frameOneGood)) (icp (tracking False)) =
     (False, (icp (tracking False))\<lparr> keyFrameCreated := False \<rparr>)"
    by (simp add: example_icp_call example_failure)
  have s2: "icp (snd (gotCloud exampleRegistration frameTwoGood (atOrigin False))) =
     (icp (atOrigin False))\<lparr>
        keyframe := Some (makeDP (points frameTwoGood)),
        absoluteTransform := stepForward,
        deltaTransform := stepForward,
        matchRatio := Finite (1 / 2),
        keyFrameCreated := True \<rparr>"
    by (simp add: gotCloud_tracking [OF example_past_warm_up(2)]
        processCloud_good [OF c2 i2 refl] off)
  have s1: "icp (snd (gotCloud exampleRegistration frameOneGood (tracking False))) =
     (icp (tracking False))\<lparr> keyFrameCreated := False \<rparr>"
    by (simp add: gotCloud_tracking [OF example_past_warm_up(1)]
        processCloud_good [OF c1 i1 refl] off)
  have k: "keyFrameCreatedAtLastCall exampleRegistration = keyFrameCreated"
    "getTransform exampleRegistration = absoluteTransform"
    by (simp_all add: exampleRegistration_def specRegistration_def)
  have pp: "pathPose exampleRegistration stepForward (sensorFrame (atOrigin False)) =
     \<lparr> ps_frame_id = ''/openni_rgb_optical_frame'',
       ps_pose = \<lparr> position = (Finite 2, Finite 0, Finite 0),
         orientation = Quaternion (Finite 0) (Finite 0) (Finite 0) (Finite 4) \<rparr> \<rparr>"
    by (simp add: pathPose_def exampleRegistration_def specRegistration_def stepForward_def
        atOrigin_def CloudMatcher_init_def)
  have pa: "path (atOrigin False) = \<lparr> path_frame_id = ''/world'', poses = [] \<rparr>"
    by (simp add: atOrigin_def CloudMatcher_init_def)
  show ?thesis
    using path_event_iff_keyframe [where cm = "atOrigin False" and E = exampleRegistration,
        OF example_past_warm_up(2) c2]
      path_event_iff_keyframe [where cm = "tracking False" and E = exampleRegistration,
        OF example_past_warm_up(1) c1]
    by (simp add: s1 s2 k pp pa)
qed

subsection \<open>C9: the ratio of good points\<close>

text \<open>
  C9, as amended. The callback computes the ratio exactly when at least one point is good
  (\<open>goodCount\<close>, the number of points whose x is not NaN, is at least 1; the cloud then has
  at least one point). The ratio is the double quotient of \<open>goodCount\<close> and the number of
  points, both converted to double, and lies in \<open>(0, 1]\<close>; for a cloud of fewer than
  \<open>2 ^ 53\<close> points it is \<open>goodCount\<close> divided by the number of points, rounded to the
  nearest double, within a relative error of \<open>2 ^ -53\<close>. When no point is good, in
  particular for the cloud without points, the callback returns before the division: no
  ratio is computed and nothing is divided by zero.
\<close>

theorem image_ratio_bounds:
  "filterCloud pts =
     (if length (filter good pts) = 0 then None
      else Some (makeDP pts, length (filter good pts),
                 imageRatio (length (filter good pts)) (length pts))) \<and>
   imageRatio (length (filter good pts)) (length pts) =
     ddiv (toDouble (length (filter good pts))) (toDouble (length pts)) \<and>
   (1 \<le> length (filter good pts) \<longrightarrow>
      1 \<le> length pts \<and> toDouble (length pts) \<noteq> 0 \<and>
      0 < imageRatio (length (filter good pts)) (length pts) \<and>
      imageRatio (length (filter good pts)) (length pts) \<le> 1) \<and>
   (1 \<le> length (filter good pts) \<and> length pts < 2 ^ 53 \<longrightarrow>
      imageRatio (length (filter good pts)) (length pts) =
        roundDouble (of_nat (length (filter good pts)) / of_nat (length pts)) \<and>
      \<bar>imageRatio (length (filter good pts)) (length pts)
          - of_nat (length (filter good pts)) / of_nat (length pts)\<bar>
        \<le> (of_nat (length (filter good pts)) / of_nat (length pts)) / 2 ^ 53) \<and>
   filterCloud [] = None"
proof (intro conjI impI)
  let ?g = "length (filter good pts)"
  let ?n = "length pts"
  have le: "?g \<le> ?n" by simp
  show "filterCloud pts =
     (if ?g = 0 then None else Some (makeDP pts, ?g, imageRatio ?g ?n))"
    by (rule filterCloud_eq)
  show "imageRatio ?g ?n = ddiv (toDouble ?g) (toDouble ?n)" by (simp add: imageRatio_def)
  show "filterCloud [] = None" by (simp add: filterCloud_eq)
  {
    assume one: "1 \<le> ?g"
    then have pos: "0 < ?g" by linarith
    with le have n: "0 < ?n" by linarith
    then show "1 \<le> ?n" by linarith
    from toDouble_pos [OF n] show "toDouble ?n \<noteq> 0" by simp
    show "0 < imageRatio ?g ?n" by (rule imageRatio_bounds(1) [OF pos le])
    show "imageRatio ?g ?n \<le> 1" by (rule imageRatio_bounds(2) [OF pos le])
  }
  {
    assume a: "1 \<le> ?g \<and> ?n < 2 ^ 53"
    then have pos: "0 < ?g" and small: "?n < 2 ^ 53" by linarith+
    show "imageRatio ?g ?n = roundDouble (of_nat ?g / of_nat ?n)"
      by (rule imageRatio_exact_operands(1) [OF pos le small])
    show "\<bar>imageRatio ?g ?n - of_nat ?g / of_nat ?n\<bar> \<le> (of_nat ?g / of_nat ?n) / 2 ^ 53"
      by (rule imageRatio_exact_operands(2) [OF pos le small])
  }
qed

theorem image_ratio_bounds_witness:
  "filterCloud (points frameTwoGood) =
     Some (makeDP (points frameTwoGood), 2, 6004799503160661 / 9007199254740992) \<and>
   roundDouble (2 / 3) = 6004799503160661 / 9007199254740992 \<and>
   (0::rat) < 6004799503160661 / 9007199254740992 \<and>
   (6004799503160661::rat) / 9007199254740992 \<le> 1 \<and>
   filterCloud (points frameOneGood) = Some (makeDP (points frameOneGood), 1, 1 / 2) \<and>
   length (filter good (points frameAllNaN)) = 0 \<and>
   filterCloud (points frameAllNaN) = None"
proof -
  have g: "length (filter good (points frameTwoGood)) = 2"
    using example_counts(1) by (simp add: countGood_filter)
  have o: "length (filter good (points frameOneGood)) = Suc 0"
    using example_counts(2) by (simp add: countGood_filter)
  have z: "length (filter good (points frameAllNaN)) = 0"
    using example_counts(3) by (simp add: countGood_filter)
  have h: "imageRatio (Suc 0) 2 = 1 / 2" using example_doubles(5) by simp
  show ?thesis
    using image_ratio_bounds [of "points frameTwoGood"] image_ratio_bounds [of "points frameOneGood"]
      image_ratio_bounds [of "points frameAllNaN"]
    by (simp add: g o z h example_sizes example_doubles)
qed

text \<open>
  C9 as stated fails. For the cloud without points the callback has returned before the
  ratio exists, so the ratio is not 0; and for the cloud holding only \<open>(1, NaN, +Inf)\<close>
  the ratio is 1 although no point has three finite coordinates.
\<close>

theorem ratio_of_empty_batch_counterexample:
  "filterCloud (points frameEmpty) = None \<and>
   map_option (\<lambda>(dp, goodCount, ratio). ratio) (filterCloud (points frameEmpty)) \<noteq> Some 0 \<and>
   filter spec_valid (points frameHalfNaN) = [] \<and>
   map_option (\<lambda>(dp, goodCount, ratio). ratio) (filterCloud (points frameHalfNaN)) = Some 1"
proof -
  have e: "filterCloud (points frameEmpty) = None"
    by (simp add: filterCloud_None example_counts)
  have "imageRatio (Suc 0) (Suc 0) = 1" using example_doubles(4) by simp
  then have h: "filterCloud (points frameHalfNaN) = Some (makeDP (points frameHalfNaN), 1, 1)"
    by (simp add: filterCloud_def example_counts example_sizes)
  have v: "filter spec_valid (points frameHalfNaN) = []"
    by (simp add: frameHalfNaN_def pHalfNaN_def spec_valid_def)
  show ?thesis by (simp add: e h v)
qed

subsection \<open>C10: the life of the warm-up counter\<close>

text \<open>
  C10. \<open>dropCount\<close> is 0 after the constructor. After any sequence of frames it equals the
  smaller of the number of frames and \<open>startupDropCount\<close>, which never changes: it grows by
  exactly one, without wrapping, on each dropped frame, and never exceeds
  \<open>startupDropCount\<close>. Once \<open>dropCount\<close> equals \<open>startupDropCount\<close> it stays equal after any
  further frames, and every later frame runs the body of the callback: none is dropped.
\<close>

theorem dropCount_lifecycle:
  "dropCount (CloudMatcher_init icp0 sd ff sf p) = 0 \<and>
   unat (dropCount (snd (run E fs (CloudMatcher_init icp0 sd ff sf p)))) =
     min (length fs) (unat (startupDropCount (CloudMatcher_init icp0 sd ff sf p))) \<and>
   startupDropCount (snd (run E fs cm)) = startupDropCount cm \<and>
   (dropCount cm < startupDropCount cm \<longrightarrow>
      gotCloud E m cm = ([], cm\<lparr> dropCount := dropCount cm + 1 \<rparr>) \<and>
      unat (dropCount cm + 1) = unat (dropCount cm) + 1 \<and>
      dropCount cm + 1 \<le> startupDropCount cm) \<and>
   (dropCount cm = startupDropCount cm \<longrightarrow>
      dropCount (snd (run E fs cm)) = startupDropCount cm \<and>
      gotCloud E m (snd (run E fs cm)) = processCloud E m (snd (run E fs cm)))"
proof (intro conjI impI)
  let ?cm0 = "CloudMatcher_init icp0 sd ff sf p :: 'a CloudMatcher"
  show z: "dropCount ?cm0 = 0" by (simp add: CloudMatcher_init_def)
  then have "dropCount ?cm0 \<le> startupDropCount ?cm0" by simp
  from run_dropCount [OF this, of E fs] z
  show "unat (dropCount (snd (run E fs ?cm0))) = min (length fs) (unat (startupDropCount ?cm0))"
    by simp
  show "startupDropCount (snd (run E fs cm)) = startupDropCount cm"
    by (rule run_startupDropCount)
next
  assume lt: "dropCount cm < startupDropCount cm"
  show "gotCloud E m cm = ([], cm\<lparr> dropCount := dropCount cm + 1 \<rparr>)"
    by (rule gotCloud_dropping [OF lt])
  show "unat (dropCount cm + 1) = unat (dropCount cm) + 1" by (rule dropCount_step [OF lt])
  show "dropCount cm + 1 \<le> startupDropCount cm" by (rule dropCount_step_le [OF lt])
next
  assume eq: "dropCount cm = startupDropCount cm"
  from run_tracking [OF eq, of E fs]
  show d: "dropCount (snd (run E fs cm)) = startupDropCount cm"
    by (simp add: run_startupDropCount)
  then have "\<not> dropCount (snd (run E fs cm)) < startupDropCount (snd (run E fs cm))"
    by (simp add: run_startupDropCount)
  then show "gotCloud E m (snd (run E fs cm)) = processCloud E m (snd (run E fs cm))"
    by (rule gotCloud_tracking)
qed

theorem dropCount_lifecycle_witness:
  "unat (dropCount (snd (run exampleRegistration [frameEmpty, frameTwoGood, frameAllNaN]
      (CloudMatcher_init Registration_init True ''/world'' ''/cam'' 2)))) = 2 \<and>
   dropCount (CloudMatcher_init Registration_init True ''/world'' ''/cam'' 2)
     < startupDropCount (CloudMatcher_init Registration_init True ''/world'' ''/cam'' 2) \<and>
   fst (gotCloud exampleRegistration frameTwoGood
      (CloudMatcher_init Registration_init True ''/world'' ''/cam'' 2)) = [] \<and>
   dropCount (snd (gotCloud exampleRegistration frameTwoGood
      (CloudMatcher_init Registration_init True ''/world'' ''/cam'' 2))) = 1 \<and>
   dropCount (tracking True) = startupDropCount (tracking True) \<and>
   dropCount (snd (run exampleRegistration [frameTwoGood, frameOneGood] (tracking True))) = 0"
proof -
  let ?cm0 = "CloudMatcher_init Registration_init True ''/world'' ''/cam'' 2"
  have lt: "dropCount ?cm0 < startupDropCount ?cm0" by (simp add: CloudMatcher_init_def)
  have eq: "dropCount (tracking True) = startupDropCount (tracking True)"
    by (simp add: tracking_def CloudMatcher_init_def)
  have z: "startupDropCount (tracking True) = 0" "startupDropCount ?cm0 = 2" "dropCount ?cm0 = 0"
    by (simp_all add: tracking_def CloudMatcher_init_def)
  show ?thesis
    using dropCount_lifecycle [where ?icp0.0 = Registration_init and sd = True
        and ff = "''/world''" and sf = "''/cam''" and p = 2 and E = exampleRegistration
        and fs = "[frameEmpty, frameTwoGood, frameAllNaN]" and cm = ?cm0 and m = frameTwoGood]
      dropCount_lifecycle [where ?icp0.0 = Registration_init and sd = True
        and ff = "''/world''" and sf = "''/cam''" and p = 2 and E = exampleRegistration
        and fs = "[frameTwoGood, frameOneGood]" and cm = "tracking True" and m = frameTwoGood]
    by (simp add: lt eq z)
qed

end
